theory Spec2Isabelle
  imports Main "HOL-Library.Sublist" "HOL-Library.AList"
begin

section \<open>Python values\<close>

text \<open>
  A Python \<open>str\<close> is a sequence of Unicode code points, and slicing, \<open>len\<close> and
  \<open>startswith\<close> count code points. A string is therefore modelled as the list of its
  code points; \<open>lit\<close> turns an ASCII literal of the source into that list.
\<close>

type_synonym pystr = "nat list"

definition lit :: "string \<Rightarrow> pystr" where
  "lit s = map of_char s"

text \<open>
  The values a JSON argument object can hold. Numbers are integers: fractional numbers,
  which no schema of the servers asks for, are left out.
\<close>

datatype pyval =
    VNone
  | VBool bool
  | VInt int
  | VStr pystr
  | VList "pyval list"
  | VDict "(pystr \<times> pyval) list"

type_synonym pydict = "(pystr \<times> pyval) list"

text \<open>
  Exceptions: the class and the text that \<open>str(e)\<close> gives, which is all the handlers
  of the servers look at.
\<close>

datatype exn_class =
  KeyError | TypeError | ValueError | TimeoutError | RuntimeError | OSError | OtherError

datatype exn = Exn exn_class pystr

fun exn_str :: "exn \<Rightarrow> pystr" where
  "exn_str (Exn c msg) = msg"

definition bindE :: "exn + 'a \<Rightarrow> ('a \<Rightarrow> exn + 'b) \<Rightarrow> exn + 'b" where
  "bindE m f = (case m of Inl e \<Rightarrow> Inl e | Inr x \<Rightarrow> f x)"

subsection \<open>Built-in string operations\<close>

text \<open>\<open>str(n)\<close> for a non-negative integer: its decimal digits.\<close>

fun str_nat :: "nat \<Rightarrow> pystr" where
  "str_nat n = (if n < 10 then [48 + n] else str_nat (n div 10) @ [48 + n mod 10])"

declare str_nat.simps [simp del]

definition str_int :: "int \<Rightarrow> pystr" where
  "str_int i = (if i < 0 then 45 # str_nat (nat (- i)) else str_nat (nat i))"

text \<open>\<open>sep.join(xs)\<close> on strings.\<close>

fun join :: "pystr \<Rightarrow> pystr list \<Rightarrow> pystr" where
  "join sep [] = []"
| "join sep [x] = x"
| "join sep (x # y # ys) = x @ sep @ join sep (y # ys)"

text \<open>\<open>s.startswith(p)\<close>, \<open>s.endswith(p)\<close> and \<open>sub in s\<close>.\<close>

fun startswith :: "pystr \<Rightarrow> pystr \<Rightarrow> bool" where
  "startswith s [] = True"
| "startswith [] (p # ps) = False"
| "startswith (c # cs) (p # ps) = (c = p \<and> startswith cs ps)"

definition endswith :: "pystr \<Rightarrow> pystr \<Rightarrow> bool" where
  "endswith s p = startswith (rev s) (rev p)"

fun contains :: "pystr \<Rightarrow> pystr \<Rightarrow> bool" where
  "contains [] sub = (sub = [])"
| "contains (c # cs) sub = (startswith (c # cs) sub \<or> contains cs sub)"

text \<open>\<open>s.split(c)\<close> for a one-character separator: always at least one piece.\<close>

fun split_chr :: "nat \<Rightarrow> pystr \<Rightarrow> pystr list" where
  "split_chr c [] = [[]]"
| "split_chr c (x # xs) =
     (if x = c then [] # split_chr c xs
      else (case split_chr c xs of
              y # ys \<Rightarrow> (x # y) # ys
            | [] \<Rightarrow> [[x]]))"

text \<open>
  \<open>f.readlines()\<close> on the text of a file: the lines with their terminating newline
  (code point 10) kept; a last line without newline is a line too.
\<close>

fun readlines_acc :: "pystr \<Rightarrow> pystr \<Rightarrow> pystr list" where
  "readlines_acc cur [] = (if cur = [] then [] else [cur])"
| "readlines_acc cur (c # cs) =
     (if c = 10 then (cur @ [c]) # readlines_acc [] cs
      else readlines_acc (cur @ [c]) cs)"

definition readlines :: "pystr \<Rightarrow> pystr list" where
  "readlines s = readlines_acc [] s"

text \<open>\<open>s.strip()\<close>: the characters for which \<open>isspace\<close> holds are removed at both ends.\<close>

definition isspace :: "nat \<Rightarrow> bool" where
  "isspace c \<longleftrightarrow>
     (9 \<le> c \<and> c \<le> 13) \<or> (28 \<le> c \<and> c \<le> 32) \<or> c = 133 \<or> c = 160 \<or> c = 5760 \<or>
     (8192 \<le> c \<and> c \<le> 8202) \<or> c = 8232 \<or> c = 8233 \<or> c = 8239 \<or> c = 8287 \<or> c = 12288"

definition strip :: "pystr \<Rightarrow> pystr" where
  "strip s = rev (dropWhile isspace (rev (dropWhile isspace s)))"

text \<open>
  \<open>s.replace(old, new)\<close>: the occurrences of \<open>old\<close> are replaced from the left, without
  overlap; an empty \<open>old\<close> matches before every character and at the end.
\<close>

function replace :: "pystr \<Rightarrow> pystr \<Rightarrow> pystr \<Rightarrow> pystr" where
  "replace old new s =
     (if old = [] then new @ concat (map (\<lambda>c. c # new) s)
      else if s = [] then []
      else if startswith s old then new @ replace old new (drop (length old) s)
      else hd s # replace old new (tl s))"
  by pat_completeness auto
termination
  by (relation "measure (\<lambda>(old, new, s). length s)") auto

declare replace.simps [simp del]

text \<open>
  \<open>str(v)\<close> and \<open>repr(v)\<close>. The quoting of a string inside a list or a dict depends on
  Unicode tables of the runtime; it is the parameter \<open>rs\<close>.
\<close>

fun py_repr :: "(pystr \<Rightarrow> pystr) \<Rightarrow> pyval \<Rightarrow> pystr" where
  "py_repr rs VNone = lit ''None''"
| "py_repr rs (VBool b) = (if b then lit ''True'' else lit ''False'')"
| "py_repr rs (VInt i) = str_int i"
| "py_repr rs (VStr s) = rs s"
| "py_repr rs (VList xs) = lit ''['' @ join (lit '', '') (map (py_repr rs) xs) @ lit '']''"
| "py_repr rs (VDict kvs) =
     lit ''{'' @ join (lit '', '') (map (\<lambda>(k, v). rs k @ lit '': '' @ py_repr rs v) kvs) @ lit ''}''"

definition py_str :: "(pystr \<Rightarrow> pystr) \<Rightarrow> pyval \<Rightarrow> pystr" where
  "py_str rs v = (case v of VStr s \<Rightarrow> s | _ \<Rightarrow> py_repr rs v)"

text \<open>Truth value of an object, as \<open>if v:\<close> tests it.\<close>

fun truthy :: "pyval \<Rightarrow> bool" where
  "truthy VNone = False"
| "truthy (VBool b) = b"
| "truthy (VInt i) = (i \<noteq> 0)"
| "truthy (VStr s) = (s \<noteq> [])"
| "truthy (VList xs) = (xs \<noteq> [])"
| "truthy (VDict kvs) = (kvs \<noteq> [])"

subsection \<open>Dictionaries\<close>

text \<open>
  A \<open>dict\<close> is an association list in insertion order. \<open>d.get(k, default)\<close>, \<open>d[k]\<close>
  (which raises \<open>KeyError\<close>, whose text is the quoted key) and \<open>d.pop(k, default)\<close>,
  which returns the value and the dictionary without the key.
\<close>

definition dict_get :: "pydict \<Rightarrow> pystr \<Rightarrow> pyval \<Rightarrow> pyval" where
  "dict_get d k dflt = (case map_of d k of Some v \<Rightarrow> v | None \<Rightarrow> dflt)"

definition subscript :: "pydict \<Rightarrow> string \<Rightarrow> exn + pyval" where
  "subscript d k =
     (case map_of d (lit k) of
        Some v \<Rightarrow> Inr v
      | None \<Rightarrow> Inl (Exn KeyError ([39] @ lit k @ [39])))"

definition dict_pop :: "pydict \<Rightarrow> pystr \<Rightarrow> pyval \<Rightarrow> pyval \<times> pydict" where
  "dict_pop d k dflt = (dict_get d k dflt, AList.delete k d)"

section \<open>Paths\<close>

text \<open>
  \<open>pathlib.Path\<close> on a POSIX system: the root (\<open>/\<close>, \<open>//\<close> or none) and the components,
  with empty components and \<open>.\<close> dropped when the path is built.
\<close>

datatype path = PosixPath (anchor: pystr) (segs: "pystr list")

definition Path :: "pystr \<Rightarrow> path" where
  "Path s =
     PosixPath
       (if startswith s (lit ''//'') \<and> \<not> startswith s (lit ''///'') then lit ''//''
        else if startswith s (lit ''/'') then lit ''/''
        else [])
       (filter (\<lambda>c. c \<noteq> [] \<and> c \<noteq> lit ''.'') (split_chr 47 s))"

definition path_str :: "path \<Rightarrow> pystr" where
  "path_str p =
     (if anchor p = [] \<and> segs p = [] then lit ''.''
      else anchor p @ join (lit ''/'') (segs p))"

text \<open>\<open>p / s\<close>: an absolute right operand replaces the left one.\<close>

definition joinpath :: "path \<Rightarrow> pystr \<Rightarrow> path" where
  "joinpath p s =
     (let q = Path s
      in if anchor q \<noteq> [] then q else PosixPath (anchor p) (segs p @ segs q))"

definition path_name :: "path \<Rightarrow> pystr" where
  "path_name p = (if segs p = [] then [] else last (segs p))"

text \<open>
  \<open>p.stem\<close>: the name up to its last dot, when that dot is neither the first nor the
  last character of the name.
\<close>

fun rfind_dot :: "pystr \<Rightarrow> nat option" where
  "rfind_dot [] = None"
| "rfind_dot (c # cs) =
     (case rfind_dot cs of
        Some i \<Rightarrow> Some (Suc i)
      | None \<Rightarrow> (if c = 46 then Some 0 else None))"

definition path_stem :: "path \<Rightarrow> pystr" where
  "path_stem p =
     (let name = path_name p
      in case rfind_dot name of
           Some i \<Rightarrow> (if 0 < i \<and> i < length name - 1 then take i name else name)
         | None \<Rightarrow> name)"

section \<open>The environment\<close>

text \<open>
  The servers talk to the file system, to child processes and to the Python runtime.
  Each such call is a question to the environment; its answer is a value or the
  exception the call raises. A child process answers \<open>communicate\<close> under
  \<open>asyncio.wait_for\<close> with a timeout: \<open>None\<close> when the timeout expires first, the
  captured output otherwise.
\<close>

datatype process =
  Process (communicate: "int \<Rightarrow> (nat list \<times> nat list) option") (returncode: int)

record world =
  repr_str :: "pystr \<Rightarrow> pystr"
  str_lower :: "pystr \<Rightarrow> pystr"
  type_error :: "string \<Rightarrow> pyval \<Rightarrow> exn"
  decode :: "nat list \<Rightarrow> exn + pystr"
  path_exists :: "path \<Rightarrow> exn + bool"
  is_dir :: "path \<Rightarrow> exn + bool"
  is_file :: "path \<Rightarrow> exn + bool"
  st_size :: "path \<Rightarrow> exn + int"
  read_text :: "path \<Rightarrow> exn + pystr"
  read_bytes :: "path \<Rightarrow> exn + nat list"
  write_bytes :: "path \<Rightarrow> nat list \<Rightarrow> exn + unit"
  iterdir :: "path \<Rightarrow> exn + path list"
  glob :: "path \<Rightarrow> pyval \<Rightarrow> exn + path list"
  mkdtemp :: "pystr option \<Rightarrow> exn + pystr"
  mkdir :: "path \<Rightarrow> exn + unit"
  create_subprocess_exec :: "pyval list \<Rightarrow> pystr option \<Rightarrow> exn + process"
  create_subprocess_shell :: "pystr \<Rightarrow> pystr option \<Rightarrow> exn + process"

text \<open>\<open>Path(v)\<close> on an argument value: only a string is accepted.\<close>

definition Path_of :: "world \<Rightarrow> pyval \<Rightarrow> exn + path" where
  "Path_of w v = (case v of VStr s \<Rightarrow> Inr (Path s) | _ \<Rightarrow> Inl (type_error w ''Path'' v))"

text \<open>\<open>sep.join(xs)\<close> on a list of values: raises at the first element that is no string.\<close>

fun join_vals :: "world \<Rightarrow> pystr \<Rightarrow> pyval list \<Rightarrow> exn + pystr list" where
  "join_vals w sep [] = Inr []"
| "join_vals w sep (VStr s # vs) = bindE (join_vals w sep vs) (\<lambda>ss. Inr (s # ss))"
| "join_vals w sep (v # vs) = Inl (type_error w ''join'' v)"

definition py_join :: "world \<Rightarrow> pystr \<Rightarrow> pyval list \<Rightarrow> exn + pystr" where
  "py_join w sep vs = bindE (join_vals w sep vs) (\<lambda>ss. Inr (join sep ss))"

section \<open>Result interpreter of the basic server\<close>

definition glyph_pass :: pystr where "glyph_pass = [9989]"
definition glyph_warn :: pystr where "glyph_warn = [9888, 65039]"
definition glyph_fail :: pystr where "glyph_fail = [10060]"
definition glyph_unknown :: pystr where "glyph_unknown = [10067]"
definition bullet :: pystr where "bullet = [8226]"

text \<open>
  The search for the extracted FastQC directory (\<open>server.py\<close>, lines 314 to 317 and 390
  to 393): the first entry of the output directory that is a directory and whose name
  contains the base name.
\<close>

fun find_fastqc_dir :: "world \<Rightarrow> path list \<Rightarrow> pystr \<Rightarrow> exn + path option" where
  "find_fastqc_dir w [] base = Inr None"
| "find_fastqc_dir w (item # items) base =
     bindE (is_dir w item) (\<lambda>d.
       if d \<and> contains (path_name item) base then Inr (Some item)
       else find_fastqc_dir w items base)"

text \<open>One line of \<open>summary.txt\<close> in the single-file report (lines 335 to 340).\<close>

definition render_summary_line :: "pystr \<Rightarrow> pystr" where
  "render_summary_line line =
     (let parts = split_chr 9 (strip line)
      in if length parts \<ge> 2 then
           (let status = parts ! 0;
                module = parts ! 1;
                emoji = (if status = lit ''PASS'' then glyph_pass
                         else if status = lit ''WARN'' then glyph_warn
                         else glyph_fail)
            in lit ''  '' @ emoji @ lit '' '' @ module @ lit '': '' @ status @ [10])
         else [])"

text \<open>The loop over the lines of \<open>fastqc_data.txt\<close> (lines 353 to 363).\<close>

fun basic_statistics :: "bool \<Rightarrow> pystr list \<Rightarrow> pystr" where
  "basic_statistics in_basic_stats [] = []"
| "basic_statistics in_basic_stats (line # lines) =
     (if startswith line (lit ''>>Basic Statistics'') then basic_statistics True lines
      else if startswith line (lit ''>>END_MODULE'') then basic_statistics False lines
      else if in_basic_stats \<and> 9 \<in> set line \<and> \<not> startswith line (lit ''#'') then
        (let parts = split_chr 9 line
         in if length parts \<ge> 2
            then lit ''  '' @ bullet @ lit '' '' @ parts ! 0 @ lit '': '' @ parts ! 1 @ [10]
            else [])
        @ basic_statistics in_basic_stats lines
      else basic_statistics in_basic_stats lines)"

definition parse_fastqc_results_body :: "world \<Rightarrow> path \<Rightarrow> pystr \<Rightarrow> exn + pystr" where
  "parse_fastqc_results_body w output_dir filename_base =
     bindE (iterdir w output_dir) (\<lambda>items.
     bindE (find_fastqc_dir w items filename_base) (\<lambda>found.
       case found of
         None \<Rightarrow> Inr (lit ''FastQC completed but results directory not found'')
       | Some fastqc_dir \<Rightarrow>
           (let data_file = joinpath fastqc_dir (lit ''fastqc_data.txt'');
                summary_file = joinpath fastqc_dir (lit ''summary.txt'');
                result0 = lit ''FastQC Analysis Complete for '' @ filename_base @ [10]
                          @ replicate 50 61 @ [10, 10]
            in bindE (path_exists w summary_file) (\<lambda>has_summary.
               bindE (if has_summary then
                        bindE (read_text w summary_file) (\<lambda>text.
                          Inr (result0 @ lit ''Module Status Summary:'' @ [10]
                               @ concat (map render_summary_line (readlines text)) @ [10]))
                      else Inr result0) (\<lambda>result1.
               bindE (path_exists w data_file) (\<lambda>has_data.
               bindE (if has_data then
                        bindE (read_text w data_file) (\<lambda>content.
                          Inr (result1 @ lit ''Basic Statistics:'' @ [10]
                               @ basic_statistics False (split_chr 10 content)))
                      else Inr result1) (\<lambda>result2.
               Inr (result2 @ [10] @ lit ''Output Files:'' @ [10]
                    @ lit ''  '' @ bullet @ lit '' HTML Report: ''
                    @ path_str (joinpath fastqc_dir (lit ''fastqc_report.html'')) @ [10]
                    @ lit ''  '' @ bullet @ lit '' Data File: '' @ path_str data_file @ [10]
                    @ lit ''  '' @ bullet @ lit '' Summary: '' @ path_str summary_file @ [10]))))))))"

text \<open>\<open>_parse_fastqc_results\<close>: any exception becomes the text of the result.\<close>

definition parse_fastqc_results :: "world \<Rightarrow> path \<Rightarrow> pystr \<Rightarrow> pystr" where
  "parse_fastqc_results w output_dir filename_base =
     (case parse_fastqc_results_body w output_dir filename_base of
        Inr result \<Rightarrow> result
      | Inl e \<Rightarrow> lit ''Error parsing FastQC results: '' @ exn_str e)"

text \<open>
  The batch summary. \<open>count_status\<close> is \<open>sum(1 for line in summary_lines if
  line.startswith(status))\<close> (lines 399 to 401); \<open>file_status\<close> is the glyph of
  line 407.
\<close>

definition count_status :: "pystr \<Rightarrow> pystr list \<Rightarrow> int" where
  "count_status status summary_lines =
     fold (\<lambda>line n. if startswith line status then n + 1 else n) summary_lines 0"

definition file_status :: "int \<Rightarrow> int \<Rightarrow> pystr" where
  "file_status warn_count fail_count =
     (if fail_count = 0 \<and> warn_count = 0 then glyph_pass
      else if fail_count = 0 then glyph_warn
      else glyph_fail)"

record batch_acc =
  result :: pystr
  total_pass :: int
  total_warn :: int
  total_fail :: int

text \<open>The body of the loop over the input files (lines 386 to 410).\<close>

definition summarize_file :: "world \<Rightarrow> path \<Rightarrow> path \<Rightarrow> batch_acc \<Rightarrow> exn + batch_acc" where
  "summarize_file w output_dir input_file acc =
     (let base_name = replace (lit ''.fq'') [] (replace (lit ''.fastq'') [] (path_stem input_file))
      in bindE (iterdir w output_dir) (\<lambda>items.
         bindE (find_fastqc_dir w items base_name) (\<lambda>found.
         bindE (case found of
                  None \<Rightarrow> Inr False
                | Some fastqc_dir \<Rightarrow> path_exists w (joinpath fastqc_dir (lit ''summary.txt'')))
               (\<lambda>has_summary.
           case (found, has_summary) of
             (Some fastqc_dir, True) \<Rightarrow>
               bindE (read_text w (joinpath fastqc_dir (lit ''summary.txt''))) (\<lambda>text.
                 let summary_lines = readlines text;
                     pass_count = count_status (lit ''PASS'') summary_lines;
                     warn_count = count_status (lit ''WARN'') summary_lines;
                     fail_count = count_status (lit ''FAIL'') summary_lines;
                     status = file_status warn_count fail_count
                 in Inr \<lparr> result = result acc @ lit ''  '' @ status @ lit '' ''
                                     @ path_name input_file @ lit '': ''
                                     @ str_int pass_count @ lit ''P/''
                                     @ str_int warn_count @ lit ''W/''
                                     @ str_int fail_count @ lit ''F'' @ [10],
                           total_pass = total_pass acc + pass_count,
                           total_warn = total_warn acc + warn_count,
                           total_fail = total_fail acc + fail_count \<rparr>)
           | _ \<Rightarrow>
               Inr (acc \<lparr> result := result acc @ lit ''  '' @ glyph_unknown @ lit '' ''
                                    @ path_name input_file @ lit '': No results found'' @ [10] \<rparr>)))))"

fun summarize_files :: "world \<Rightarrow> path \<Rightarrow> path list \<Rightarrow> batch_acc \<Rightarrow> exn + batch_acc" where
  "summarize_files w output_dir [] acc = Inr acc"
| "summarize_files w output_dir (input_file # files) acc =
     bindE (summarize_file w output_dir input_file acc) (summarize_files w output_dir files)"

definition summarize_batch_results :: "world \<Rightarrow> path \<Rightarrow> path list \<Rightarrow> pystr" where
  "summarize_batch_results w output_dir files =
     (case summarize_files w output_dir files
             \<lparr> result = lit ''FastQC Batch Analysis Complete'' @ [10] @ replicate 40 61 @ [10, 10]
                       @ lit ''Processed '' @ str_int (int (length files)) @ lit '' files:'' @ [10, 10],
               total_pass = 0, total_warn = 0, total_fail = 0 \<rparr> of
        Inr acc \<Rightarrow>
          result acc @ [10] @ lit ''Overall Summary:'' @ [10]
          @ lit ''  '' @ bullet @ lit '' Total PASS: '' @ str_int (total_pass acc) @ [10]
          @ lit ''  '' @ bullet @ lit '' Total WARN: '' @ str_int (total_warn acc) @ [10]
          @ lit ''  '' @ bullet @ lit '' Total FAIL: '' @ str_int (total_fail acc) @ [10, 10]
          @ lit ''Output directory: '' @ path_str output_dir @ [10]
          @ [10] @ lit ''Tip: Run multiqc_report on this directory to generate a combined report!'' @ [10]
      | Inl e \<Rightarrow> lit ''Error summarizing batch results: '' @ exn_str e)"

section \<open>Effects\<close>

text \<open>
  What a handler does to the outside is recorded, in order, in a trace; a handler is a
  function from the state before to its outcome (a value or a raised exception) and the
  state after.
\<close>

datatype event =
    TempDirCreated pystr
  | TempDirRemoved pystr
  | Mkdir path
  | WriteBytes path "nat list"
  | SpawnExec "pyval list" "pystr option"
  | SpawnShell pystr "pystr option"
  | Kill
  | LogInfo pystr
  | LogWarning pystr
  | LogError pystr
  | SubmitJob pystr pydict pyval pyval

record effects =
  trace :: "event list"

type_synonym ('s, 'a) io = "'s \<Rightarrow> (exn + 'a) \<times> 's"

definition ret :: "'a \<Rightarrow> ('s, 'a) io" where
  "ret x = (\<lambda>s. (Inr x, s))"

definition raise :: "exn \<Rightarrow> ('s, 'a) io" where
  "raise e = (\<lambda>s. (Inl e, s))"

definition ask :: "exn + 'a \<Rightarrow> ('s, 'a) io" where
  "ask r = (\<lambda>s. (r, s))"

definition bind :: "('s, 'a) io \<Rightarrow> ('a \<Rightarrow> ('s, 'b) io) \<Rightarrow> ('s, 'b) io" where
  "bind m f = (\<lambda>s. case m s of (Inl e, s') \<Rightarrow> (Inl e, s') | (Inr x, s') \<Rightarrow> f x s')"

definition emit :: "event \<Rightarrow> ('x effects_scheme, unit) io" where
  "emit ev = (\<lambda>s. (Inr (), s\<lparr>trace := trace s @ [ev]\<rparr>))"

text \<open>\<open>try: m except Exception as e: h e\<close> and \<open>try: m finally: c\<close>.\<close>

definition try_except :: "('s, 'a) io \<Rightarrow> (exn \<Rightarrow> ('s, 'a) io) \<Rightarrow> ('s, 'a) io" where
  "try_except m h = (\<lambda>s. case m s of (Inl e, s') \<Rightarrow> h e s' | (Inr x, s') \<Rightarrow> (Inr x, s'))"

definition try_finally :: "('s, 'a) io \<Rightarrow> ('s, unit) io \<Rightarrow> ('s, 'a) io" where
  "try_finally m c =
     (\<lambda>s. case m s of
             (r, s') \<Rightarrow> (case c s' of (Inl e, s'') \<Rightarrow> (Inl e, s'') | (Inr u, s'') \<Rightarrow> (r, s'')))"

text \<open>
  \<open>with tempfile.TemporaryDirectory(dir=d) as tmpdir\<close>: the directory is removed when
  the block is left, however it is left.
\<close>

definition TemporaryDirectory ::
  "world \<Rightarrow> pystr option \<Rightarrow> (pystr \<Rightarrow> ('x effects_scheme, 'a) io) \<Rightarrow> ('x effects_scheme, 'a) io" where
  "TemporaryDirectory w dir body =
     bind (ask (mkdtemp w dir)) (\<lambda>tmpdir.
     bind (emit (TempDirCreated tmpdir)) (\<lambda>u.
     try_finally (body tmpdir) (emit (TempDirRemoved tmpdir))))"

definition do_mkdir :: "world \<Rightarrow> path \<Rightarrow> ('x effects_scheme, unit) io" where
  "do_mkdir w p = bind (ask (mkdir w p)) (\<lambda>u. emit (Mkdir p))"

definition do_write_bytes :: "world \<Rightarrow> path \<Rightarrow> nat list \<Rightarrow> ('x effects_scheme, unit) io" where
  "do_write_bytes w p data = bind (ask (write_bytes w p data)) (\<lambda>u. emit (WriteBytes p data))"

definition do_subprocess_exec ::
  "world \<Rightarrow> pyval list \<Rightarrow> pystr option \<Rightarrow> ('x effects_scheme, process) io" where
  "do_subprocess_exec w cmd cwd =
     bind (ask (create_subprocess_exec w cmd cwd)) (\<lambda>process.
     bind (emit (SpawnExec cmd cwd)) (\<lambda>u. ret process))"

definition do_subprocess_shell ::
  "world \<Rightarrow> pystr \<Rightarrow> pystr option \<Rightarrow> ('x effects_scheme, process) io" where
  "do_subprocess_shell w cmd cwd =
     bind (ask (create_subprocess_shell w cmd cwd)) (\<lambda>process.
     bind (emit (SpawnShell cmd cwd)) (\<lambda>u. ret process))"

section \<open>The basic server (\<open>server.py\<close>)\<close>

datatype content = TextContent pystr | ErrorContent pystr

record BaseSettings =
  max_file_size :: int
  temp_dir :: "pystr option"
  timeout :: int

record ServerSettings = BaseSettings +
  fastqc_path :: pystr
  multiqc_path :: pystr

text \<open>\<open>cmd.extend([flag, arguments[key]])\<close> when \<open>arguments.get(key)\<close> is true.\<close>

definition optional_flag :: "pydict \<Rightarrow> string \<Rightarrow> string \<Rightarrow> pyval list" where
  "optional_flag arguments key flag =
     (if truthy (dict_get arguments (lit key) VNone)
      then [VStr (lit flag), dict_get arguments (lit key) VNone]
      else [])"

text \<open>The command line of \<open>_run_fastqc_single\<close> (lines 154 to 169).\<close>

definition fastqc_single_cmd ::
  "ServerSettings \<Rightarrow> world \<Rightarrow> pydict \<Rightarrow> path \<Rightarrow> path \<Rightarrow> pyval list" where
  "fastqc_single_cmd settings w arguments output_dir input_path =
     [VStr (fastqc_path settings),
      VStr (lit ''--outdir''), VStr (path_str output_dir),
      VStr (lit ''--threads''),
      VStr (py_str (repr_str w) (dict_get arguments (lit ''threads'') (VInt 1))),
      VStr (lit ''--extract'')]
     @ optional_flag arguments ''contaminants'' ''--contaminants''
     @ optional_flag arguments ''adapters'' ''--adapters''
     @ optional_flag arguments ''limits'' ''--limits''
     @ [VStr (path_str input_path)]"

text \<open>
  \<open>_run_fastqc_single\<close> (lines 140 to 195). The temporary directory is removed when the
  \<open>with\<close> block is left, before the handler of \<open>except Exception\<close> runs.
\<close>

definition run_fastqc_single ::
  "ServerSettings \<Rightarrow> world \<Rightarrow> pydict \<Rightarrow> ('x effects_scheme, content list) io" where
  "run_fastqc_single settings w arguments =
     try_except
       (bind (ask (subscript arguments ''input_file'')) (\<lambda>v.
        bind (ask (Path_of w v)) (\<lambda>input_path.
        bind (ask (path_exists w input_path)) (\<lambda>found.
        if \<not> found then
          ret [ErrorContent (lit ''Input file not found: '' @ path_str input_path)]
        else
        bind (ask (st_size w input_path)) (\<lambda>size.
        if size > max_file_size settings then
          ret [ErrorContent (lit ''File too large. Maximum size: ''
                             @ str_int (max_file_size settings) @ lit '' bytes'')]
        else
        TemporaryDirectory w (temp_dir settings) (\<lambda>tmpdir.
          let output_dir = joinpath (Path tmpdir) (lit ''fastqc_output'') in
          bind (do_mkdir w output_dir) (\<lambda>u.
          let cmd = fastqc_single_cmd settings w arguments output_dir input_path in
          bind (do_subprocess_exec w cmd None) (\<lambda>process.
          case communicate process (timeout settings) of
            None \<Rightarrow>
              bind (emit Kill) (\<lambda>u.
              ret [ErrorContent (lit ''FastQC timed out after ''
                                 @ str_int (timeout settings) @ lit '' seconds'')])
          | Some (stdout, stderr) \<Rightarrow>
              if returncode process \<noteq> 0 then
                bind (ask (decode w stderr)) (\<lambda>err.
                ret [ErrorContent (lit ''FastQC failed: '' @ err)])
              else
                ret [TextContent (parse_fastqc_results w output_dir (path_stem input_path))]))))))))
       (\<lambda>e.
        bind (emit (LogError (lit ''Error running FastQC: '' @ exn_str e))) (\<lambda>u.
        ret [ErrorContent (lit ''Error: '' @ exn_str e)]))"

text \<open>The command line of \<open>_run_fastqc_batch\<close> (lines 214 to 219).\<close>

definition fastqc_batch_cmd ::
  "ServerSettings \<Rightarrow> world \<Rightarrow> pydict \<Rightarrow> path \<Rightarrow> path list \<Rightarrow> pyval list" where
  "fastqc_batch_cmd settings w arguments output_dir files =
     [VStr (fastqc_path settings),
      VStr (lit ''--outdir''), VStr (path_str output_dir),
      VStr (lit ''--threads''),
      VStr (py_str (repr_str w) (dict_get arguments (lit ''threads'') (VInt 4))),
      VStr (lit ''--extract'')]
     @ map (\<lambda>f. VStr (path_str f)) files"

text \<open>\<open>_run_fastqc_batch\<close> (lines 197 to 245).\<close>

definition run_fastqc_batch ::
  "ServerSettings \<Rightarrow> world \<Rightarrow> pydict \<Rightarrow> ('x effects_scheme, content list) io" where
  "run_fastqc_batch settings w arguments =
     try_except
       (bind (ask (subscript arguments ''input_dir'')) (\<lambda>v.
        bind (ask (Path_of w v)) (\<lambda>input_dir.
        bind (ask (path_exists w input_dir)) (\<lambda>found.
        if \<not> found then
          ret [ErrorContent (lit ''Input directory not found: '' @ path_str input_dir)]
        else
        let pattern = dict_get arguments (lit ''file_pattern'') (VStr (lit ''*.fastq*'')) in
        bind (ask (glob w input_dir pattern)) (\<lambda>files.
        if files = [] then
          ret [ErrorContent (lit ''No files found matching pattern '' @ [39]
                             @ py_str (repr_str w) pattern @ [39]
                             @ lit '' in '' @ path_str input_dir)]
        else
        TemporaryDirectory w (temp_dir settings) (\<lambda>tmpdir.
          let output_dir = joinpath (Path tmpdir) (lit ''fastqc_batch_output'') in
          bind (do_mkdir w output_dir) (\<lambda>u.
          let cmd = fastqc_batch_cmd settings w arguments output_dir files in
          bind (do_subprocess_exec w cmd None) (\<lambda>process.
          case communicate process (timeout settings) of
            None \<Rightarrow>
              bind (emit Kill) (\<lambda>u.
              ret [ErrorContent (lit ''FastQC batch processing timed out after ''
                                 @ str_int (timeout settings) @ lit '' seconds'')])
          | Some (stdout, stderr) \<Rightarrow>
              if returncode process \<noteq> 0 then
                bind (ask (decode w stderr)) (\<lambda>err.
                ret [ErrorContent (lit ''FastQC batch processing failed: '' @ err)])
              else
                ret [TextContent (summarize_batch_results w output_dir files)]))))))))
       (\<lambda>e.
        bind (emit (LogError (lit ''Error running FastQC batch: '' @ exn_str e))) (\<lambda>u.
        ret [ErrorContent (lit ''Error: '' @ exn_str e)]))"

text \<open>\<open>f"{n:,}"\<close>: the decimal digits in groups of three, separated by commas.\<close>

fun group_thousands :: "pystr \<Rightarrow> pystr" where
  "group_thousands (a # b # c # d # ds) = a # b # c # 44 # group_thousands (d # ds)"
| "group_thousands ds = ds"

definition format_commas :: "int \<Rightarrow> pystr" where
  "format_commas i =
     (if i < 0 then [45] else []) @ rev (group_thousands (rev (str_nat (nat \<bar>i\<bar>))))"

text \<open>The report of \<open>_run_multiqc\<close> once MultiQC has exited with status 0 (lines 288 to 303).\<close>

definition multiqc_result :: "world \<Rightarrow> path \<Rightarrow> exn + pystr" where
  "multiqc_result w output_dir =
     (let report_html = joinpath output_dir (lit ''multiqc_report.html'');
          data_dir = joinpath output_dir (lit ''multiqc_data'');
          stats_file = joinpath data_dir (lit ''multiqc_general_stats.txt'');
          result0 = lit ''MultiQC report generated successfully!'' @ [10, 10]
                    @ lit ''Report: '' @ path_str report_html @ [10]
                    @ lit ''Data directory: '' @ path_str data_dir @ [10, 10]
      in bindE (path_exists w report_html) (\<lambda>has_report.
         bindE (if has_report then
                  bindE (st_size w report_html) (\<lambda>size.
                    Inr (result0 @ lit ''Report size: '' @ format_commas size @ lit '' bytes'' @ [10]))
                else Inr result0) (\<lambda>result1.
         bindE (path_exists w stats_file) (\<lambda>has_stats.
         if has_stats then
           bindE (read_text w stats_file) (\<lambda>stats.
             Inr (result1 @ [10] @ lit ''General Statistics:'' @ [10]
                  @ take 1000 stats @ lit ''...''))
         else Inr result1))))"

text \<open>The command line of \<open>_run_multiqc\<close> (lines 257 to 267).\<close>

definition multiqc_cmd :: "ServerSettings \<Rightarrow> pydict \<Rightarrow> path \<Rightarrow> path \<Rightarrow> pyval list" where
  "multiqc_cmd settings arguments input_dir output_dir =
     [VStr (multiqc_path settings),
      VStr (path_str input_dir),
      VStr (lit ''--outdir''), VStr (path_str output_dir),
      VStr (lit ''--template''),
      dict_get arguments (lit ''template'') (VStr (lit ''default''))]
     @ optional_flag arguments ''title'' ''--title''
     @ optional_flag arguments ''comment'' ''--comment''"

text \<open>\<open>_run_multiqc\<close> of the basic server (lines 247 to 307).\<close>

definition run_multiqc ::
  "ServerSettings \<Rightarrow> world \<Rightarrow> pydict \<Rightarrow> ('x effects_scheme, content list) io" where
  "run_multiqc settings w arguments =
     try_except
       (bind (ask (subscript arguments ''input_dir'')) (\<lambda>v.
        bind (ask (Path_of w v)) (\<lambda>input_dir.
        bind (ask (path_exists w input_dir)) (\<lambda>found.
        if \<not> found then
          ret [ErrorContent (lit ''Input directory not found: '' @ path_str input_dir)]
        else
        TemporaryDirectory w (temp_dir settings) (\<lambda>tmpdir.
          let output_dir = joinpath (Path tmpdir) (lit ''multiqc_output'') in
          bind (do_mkdir w output_dir) (\<lambda>u.
          let cmd = multiqc_cmd settings arguments input_dir output_dir in
          bind (do_subprocess_exec w cmd None) (\<lambda>process.
          case communicate process (timeout settings) of
            None \<Rightarrow>
              bind (emit Kill) (\<lambda>u.
              ret [ErrorContent (lit ''MultiQC timed out after ''
                                 @ str_int (timeout settings) @ lit '' seconds'')])
          | Some (stdout, stderr) \<Rightarrow>
              if returncode process \<noteq> 0 then
                bind (ask (decode w stderr)) (\<lambda>err.
                ret [ErrorContent (lit ''MultiQC failed: '' @ err)])
              else
                bind (ask (multiqc_result w output_dir)) (\<lambda>result.
                ret [TextContent result]))))))))
       (\<lambda>e.
        bind (emit (LogError (lit ''Error running MultiQC: '' @ exn_str e))) (\<lambda>u.
        ret [ErrorContent (lit ''Error: '' @ exn_str e)]))"

text \<open>The dispatch of the basic server (lines 127 to 138).\<close>

definition call_tool ::
  "ServerSettings \<Rightarrow> world \<Rightarrow> pystr \<Rightarrow> pydict \<Rightarrow> ('x effects_scheme, content list) io" where
  "call_tool settings w name arguments =
     (if name = lit ''fastqc_single'' then run_fastqc_single settings w arguments
      else if name = lit ''fastqc_batch'' then run_fastqc_batch settings w arguments
      else if name = lit ''multiqc_report'' then run_multiqc settings w arguments
      else ret [ErrorContent (lit ''Unknown tool: '' @ name)])"

section \<open>The enhanced server (\<open>server_enhanced.py\<close>)\<close>

text \<open>
  Modelled from the spec: the enumeration \<open>ExecutionMode\<close> of the module
  \<open>tool_detection\<close>, which is not among the sources. Its values are those of section 3
  of the specification; \<open>ExecutionMode(s)\<close> raises \<open>ValueError\<close> on any other string.
\<close>

datatype ExecutionMode = NATIVE | MODULE | LMOD | SINGULARITY | DOCKER | UNAVAILABLE

fun mode_value :: "ExecutionMode \<Rightarrow> pystr" where
  "mode_value NATIVE = lit ''native''"
| "mode_value MODULE = lit ''module''"
| "mode_value LMOD = lit ''lmod''"
| "mode_value SINGULARITY = lit ''singularity''"
| "mode_value DOCKER = lit ''docker''"
| "mode_value UNAVAILABLE = lit ''unavailable''"

definition ExecutionMode_of :: "pystr \<Rightarrow> ExecutionMode option" where
  "ExecutionMode_of s =
     find (\<lambda>m. mode_value m = s) [NATIVE, MODULE, LMOD, SINGULARITY, DOCKER, UNAVAILABLE]"

text \<open>
  Modelled from the spec: the record \<open>ToolInfo\<close> of the same module, with the fields
  the server reads. The two methods of \<open>ToolDetector\<close> that the server calls are
  parameters: nothing is assumed about them.
\<close>

record ToolInfo =
  mode :: ExecutionMode
  tool_path :: "pystr option"
  tool_version :: "pystr option"
  tool_module :: "pystr option"
  tool_image :: "pystr option"

record detector =
  detect_tool ::
    "pystr \<Rightarrow> pystr list \<Rightarrow> pystr \<Rightarrow> ExecutionMode list option \<Rightarrow> ExecutionMode option
       \<Rightarrow> exn + ToolInfo"
  get_execution_command :: "ToolInfo \<Rightarrow> pyval list \<Rightarrow> exn + pyval list"

record EnhancedSettings = BaseSettings +
  execution_mode :: "pystr option"
  preferred_modes :: pystr
  module_names :: pystr
  container_image :: pystr

text \<open>The server object caches the detected tools (\<open>self.fastqc_info\<close>, \<open>self.multiqc_info\<close>).\<close>

record enhanced_state = effects +
  fastqc_info :: "ToolInfo option"
  multiqc_info :: "ToolInfo option"

text \<open>The loop over the preferred modes (lines 67 to 73).\<close>

fun parse_preferred_modes ::
  "world \<Rightarrow> pystr list \<Rightarrow> ('x effects_scheme, ExecutionMode list) io" where
  "parse_preferred_modes w [] = ret []"
| "parse_preferred_modes w (mode_str # rest) =
     (case ExecutionMode_of (str_lower w (strip mode_str)) of
        Some m \<Rightarrow> bind (parse_preferred_modes w rest) (\<lambda>ms. ret (m # ms))
      | None \<Rightarrow>
          bind (emit (LogWarning (lit ''Invalid preferred mode: '' @ mode_str))) (\<lambda>u.
          parse_preferred_modes w rest))"

text \<open>
  \<open>_detect_tool\<close> (lines 57 to 90), named \<open>detect_tool_mode\<close> here because \<open>detect_tool\<close> is
  the method of the detector that it calls. \<open>get_fastqc_info\<close> and \<open>get_multiqc_info\<close> are
  \<open>_get_fastqc_info\<close> and \<open>_get_multiqc_info\<close> (lines 92 to 102).
\<close>

definition detect_tool_mode ::
  "EnhancedSettings \<Rightarrow> world \<Rightarrow> detector \<Rightarrow> pystr \<Rightarrow> ('x effects_scheme, ToolInfo) io" where
  "detect_tool_mode settings w det tool_name =
     bind (case execution_mode settings of
             None \<Rightarrow> ret None
           | Some m \<Rightarrow>
               if m = [] then ret None
               else (case ExecutionMode_of (str_lower w m) of
                       Some md \<Rightarrow> ret (Some md)
                     | None \<Rightarrow>
                         bind (emit (LogWarning (lit ''Invalid execution mode: '' @ m))) (\<lambda>u.
                         ret None))) (\<lambda>force_mode.
     bind (parse_preferred_modes w (split_chr 44 (preferred_modes settings))) (\<lambda>preferred.
     let names = (if tool_name = lit ''fastqc''
                  then map strip (split_chr 44 (module_names settings))
                  else [lit ''multiqc'', lit ''MultiQC'']) in
     ask (detect_tool det tool_name names (container_image settings)
            (if preferred = [] then None else Some preferred) force_mode)))"

definition get_fastqc_info ::
  "EnhancedSettings \<Rightarrow> world \<Rightarrow> detector \<Rightarrow> ('x enhanced_state_scheme, ToolInfo) io" where
  "get_fastqc_info settings w det =
     (\<lambda>s. case fastqc_info s of
             Some info \<Rightarrow> (Inr info, s)
           | None \<Rightarrow>
               (case detect_tool_mode settings w det (lit ''fastqc'') s of
                  (Inr info, s') \<Rightarrow> (Inr info, s'\<lparr>fastqc_info := Some info\<rparr>)
                | (Inl e, s') \<Rightarrow> (Inl e, s')))"

definition get_multiqc_info ::
  "EnhancedSettings \<Rightarrow> world \<Rightarrow> detector \<Rightarrow> ('x enhanced_state_scheme, ToolInfo) io" where
  "get_multiqc_info settings w det =
     (\<lambda>s. case multiqc_info s of
             Some info \<Rightarrow> (Inr info, s)
           | None \<Rightarrow>
               (case detect_tool_mode settings w det (lit ''multiqc'') s of
                  (Inr info, s') \<Rightarrow> (Inr info, s'\<lparr>multiqc_info := Some info\<rparr>)
                | (Inl e, s') \<Rightarrow> (Inl e, s')))"

text \<open>
  \<open>_execute_tool_command\<close> (lines 214 to 254). The wait for the child is not guarded:
  when the timeout expires, \<open>asyncio.wait_for\<close> raises a \<open>TimeoutError\<close> without
  arguments, whose text is empty, and the exception leaves the function.
\<close>

definition execute_tool_command ::
  "EnhancedSettings \<Rightarrow> world \<Rightarrow> detector \<Rightarrow> pystr \<Rightarrow> pyval list \<Rightarrow> pystr
     \<Rightarrow> ('x enhanced_state_scheme, nat list \<times> nat list \<times> int) io" where
  "execute_tool_command settings w det tool_name tool_args tmpdir =
     bind (if tool_name = lit ''fastqc'' then get_fastqc_info settings w det
           else get_multiqc_info settings w det) (\<lambda>tool_info.
     if mode tool_info = UNAVAILABLE then
       raise (Exn RuntimeError (tool_name @ lit '' is not available in any execution mode''))
     else
     bind (ask (get_execution_command det tool_info tool_args)) (\<lambda>cmd.
     bind (ask (py_join w (lit '' '') cmd)) (\<lambda>joined.
     bind (emit (LogInfo (lit ''Executing '' @ tool_name @ lit '' via ''
                          @ mode_value (mode tool_info) @ lit '': '' @ joined))) (\<lambda>u.
     bind (if mode tool_info = MODULE \<or> mode tool_info = LMOD then
             bind (ask (py_join w (lit '' '') cmd)) (\<lambda>shell_cmd.
             do_subprocess_shell w shell_cmd (Some tmpdir))
           else do_subprocess_exec w cmd (Some tmpdir)) (\<lambda>process.
     case communicate process (timeout settings) of
       None \<Rightarrow> raise (Exn TimeoutError [])
     | Some (stdout, stderr) \<Rightarrow> ret (stdout, stderr, returncode process))))))"

text \<open>The listing of the generated files (lines 302 to 311 and 351 to 360).\<close>

fun select_output_files :: "world \<Rightarrow> pystr option \<Rightarrow> path list \<Rightarrow> exn + path list" where
  "select_output_files w skip [] = Inr []"
| "select_output_files w skip (file # files) =
     bindE (is_file w file) (\<lambda>f.
     bindE (select_output_files w skip files) (\<lambda>rest.
       Inr (if f \<and> Some (path_name file) \<noteq> skip then file # rest else rest)))"

fun list_output_files :: "world \<Rightarrow> path list \<Rightarrow> exn + pystr" where
  "list_output_files w [] = Inr []"
| "list_output_files w (file # files) =
     bindE (st_size w file) (\<lambda>size.
     bindE (list_output_files w files) (\<lambda>rest.
       Inr (lit ''- '' @ path_name file @ lit '' ('' @ str_int size @ lit '' bytes)'' @ [92, 110]
            @ rest)))"

text \<open>The arguments of FastQC in the enhanced server (lines 272 to 293).\<close>

definition fastqc_tool_args :: "world \<Rightarrow> pydict \<Rightarrow> pystr \<Rightarrow> path \<Rightarrow> pyval list" where
  "fastqc_tool_args w arguments tmpdir temp_input =
     (let output_format = dict_get arguments (lit ''output_format'') (VStr (lit ''both''))
      in [VStr (lit ''-o''), VStr tmpdir,
          VStr (lit ''-t''),
          VStr (py_str (repr_str w) (dict_get arguments (lit ''threads'') (VInt 1)))]
         @ (if truthy (dict_get arguments (lit ''quiet'') (VBool False))
            then [VStr (lit ''-q'')] else [])
         @ (if output_format = VStr (lit ''html'') then [VStr (lit ''--nozip'')]
            else if output_format = VStr (lit ''zip'') then [VStr (lit ''--nohtml'')]
            else [])
         @ [VStr (path_str temp_input)])"

text \<open>
  \<open>_run_fastqc\<close> and \<open>_run_multiqc\<close> of the enhanced server (lines 256 to 366); the prefix
  \<open>enhanced\<close> tells them from the handlers of the basic server.
\<close>

definition enhanced_run_fastqc ::
  "EnhancedSettings \<Rightarrow> world \<Rightarrow> detector \<Rightarrow> pydict
     \<Rightarrow> ('x enhanced_state_scheme, content list) io" where
  "enhanced_run_fastqc settings w det arguments =
     try_except
       (bind (ask (subscript arguments ''input_file'')) (\<lambda>v.
        bind (ask (Path_of w v)) (\<lambda>input_file.
        bind (ask (path_exists w input_file)) (\<lambda>found.
        if \<not> found then
          ret [ErrorContent (lit ''Input file not found: '' @ path_str input_file)]
        else
        bind (ask (st_size w input_file)) (\<lambda>size.
        if size > max_file_size settings then
          ret [ErrorContent (lit ''File too large. Maximum size: ''
                             @ str_int (max_file_size settings) @ lit '' bytes'')]
        else
        TemporaryDirectory w (temp_dir settings) (\<lambda>tmpdir.
          let temp_input = joinpath (Path tmpdir) (path_name input_file) in
          bind (ask (read_bytes w input_file)) (\<lambda>data.
          bind (do_write_bytes w temp_input data) (\<lambda>u.
          let tool_args = fastqc_tool_args w arguments tmpdir temp_input in
          bind (execute_tool_command settings w det (lit ''fastqc'') tool_args tmpdir)
            (\<lambda>(stdout, stderr, rc).
          if rc \<noteq> 0 then
            bind (ask (decode w stderr)) (\<lambda>err.
            ret [ErrorContent (lit ''FastQC failed: '' @ err)])
          else
            bind (ask (glob w (Path tmpdir) (VStr (lit ''*'')))) (\<lambda>files.
            bind (ask (select_output_files w (Some (path_name temp_input)) files))
              (\<lambda>output_files.
            bind (ask (list_output_files w output_files)) (\<lambda>listing.
            ret [TextContent (lit ''FastQC completed successfully'' @ [92, 110]
                              @ lit ''Generated '' @ str_int (int (length output_files))
                              @ lit '' output files:'' @ [92, 110] @ listing)]))))))))))))
       (\<lambda>e.
        bind (emit (LogError (lit ''Error running FastQC: '' @ exn_str e))) (\<lambda>u.
        ret [ErrorContent (lit ''Error: '' @ exn_str e)]))"

text \<open>The arguments of MultiQC in the enhanced server (lines 328 to 342).\<close>

definition multiqc_tool_args :: "pydict \<Rightarrow> pystr \<Rightarrow> path \<Rightarrow> pyval list" where
  "multiqc_tool_args arguments tmpdir input_dir =
     [VStr (lit ''-o''), VStr tmpdir]
     @ optional_flag arguments ''report_title'' ''--title''
     @ optional_flag arguments ''comment'' ''--comment''
     @ [VStr (path_str input_dir)]"

definition enhanced_run_multiqc ::
  "EnhancedSettings \<Rightarrow> world \<Rightarrow> detector \<Rightarrow> pydict
     \<Rightarrow> ('x enhanced_state_scheme, content list) io" where
  "enhanced_run_multiqc settings w det arguments =
     try_except
       (bind (ask (subscript arguments ''input_dir'')) (\<lambda>v.
        bind (ask (Path_of w v)) (\<lambda>input_dir.
        bind (ask (path_exists w input_dir)) (\<lambda>found.
        if \<not> found then
          ret [ErrorContent (lit ''Input directory not found: '' @ path_str input_dir)]
        else
        TemporaryDirectory w (temp_dir settings) (\<lambda>tmpdir.
          let tool_args = multiqc_tool_args arguments tmpdir input_dir in
          bind (execute_tool_command settings w det (lit ''multiqc'') tool_args tmpdir)
            (\<lambda>(stdout, stderr, rc).
          if rc \<noteq> 0 then
            bind (ask (decode w stderr)) (\<lambda>err.
            ret [ErrorContent (lit ''MultiQC failed: '' @ err)])
          else
            bind (ask (glob w (Path tmpdir) (VStr (lit ''*'')))) (\<lambda>files.
            bind (ask (select_output_files w None files)) (\<lambda>output_files.
            bind (ask (list_output_files w output_files)) (\<lambda>listing.
            ret [TextContent (lit ''MultiQC completed successfully'' @ [92, 110]
                              @ lit ''Generated '' @ str_int (int (length output_files))
                              @ lit '' output files:'' @ [92, 110] @ listing)])))))))))
       (\<lambda>e.
        bind (emit (LogError (lit ''Error running MultiQC: '' @ exn_str e))) (\<lambda>u.
        ret [ErrorContent (lit ''Error: '' @ exn_str e)]))"

section \<open>The queue-backed server (\<open>server_with_queue.py\<close>)\<close>

text \<open>
  The methods of \<open>QueueIntegrationMixin\<close> (module \<open>queue_integration\<close>, not among the
  sources) that the server calls are parameters; \<open>'j\<close> is the type of the job records
  of the remote queue.
\<close>

record 'j queue =
  submit_job :: "pystr \<Rightarrow> pydict \<Rightarrow> pyval \<Rightarrow> pyval \<Rightarrow> exn + 'j"
  get_job_status :: "pyval \<Rightarrow> exn + 'j"
  get_job_result :: "pyval \<Rightarrow> exn + pydict"
  cancel_job :: "pyval \<Rightarrow> exn + unit"
  format_job_status :: "'j \<Rightarrow> exn + pystr"

text \<open>The job type of each entry of \<open>async_tool_configs\<close> (lines 23 to 98).\<close>

definition async_tool_configs :: "(pystr \<times> pystr) list" where
  "async_tool_configs =
     [(lit ''fastqc_single'', lit ''fastqc_single''),
      (lit ''fastqc_batch'', lit ''fastqc_batch''),
      (lit ''multiqc_report'', lit ''multiqc_report'')]"

text \<open>
  \<open>_handle_async_tool\<close> (lines 136 to 165). The event \<open>SubmitJob\<close> records the call of
  \<open>submit_job\<close> with its arguments, whatever the queue answers.
\<close>

definition handle_async_tool ::
  "world \<Rightarrow> 'j queue \<Rightarrow> pystr \<Rightarrow> pystr \<Rightarrow> pydict \<Rightarrow> ('x effects_scheme, content list) io" where
  "handle_async_tool w q tool_name job_type arguments =
     try_except
       (case dict_pop arguments (lit ''priority'') (VInt 5) of (priority, arguments1) \<Rightarrow>
        case dict_pop arguments1 (lit ''tags'') (VList []) of (tags, arguments2) \<Rightarrow>
        case dict_pop arguments2 (lit ''notification_email'') VNone of
          (notification_email, arguments3) \<Rightarrow>
        bind (emit (SubmitJob job_type arguments3 priority tags)) (\<lambda>u.
        bind (ask (submit_job q job_type arguments3 priority tags)) (\<lambda>job_info.
        bind (ask (format_job_status q job_info)) (\<lambda>status.
        ret [TextContent
               (lit ''FastQC job submitted successfully!'' @ [10, 10]
                @ status @ [10, 10]
                @ lit ''Use 'get_job_status' with job ID to check progress.'' @ [10]
                @ lit ''Large batch jobs may take 10-30 minutes depending on file size.'')]))))
       (\<lambda>e. ret [ErrorContent (lit ''Error submitting FastQC job: '' @ exn_str e)])"

text \<open>\<open>_handle_job_status\<close>, \<open>_handle_job_result\<close>, \<open>_handle_list_jobs\<close> and
  \<open>_handle_cancel_job\<close> (lines 167 to 222).\<close>

definition handle_job_status ::
  "'j queue \<Rightarrow> pyval \<Rightarrow> ('s, content list) io" where
  "handle_job_status q job_id =
     try_except
       (bind (ask (get_job_status q job_id)) (\<lambda>job_info.
        bind (ask (format_job_status q job_info)) (\<lambda>status.
        ret [TextContent status])))
       (\<lambda>e. ret [ErrorContent (exn_str e)])"

text \<open>The lines for the entries of \<open>result["summary"]\<close> (lines 185 and 186).\<close>

definition summary_items :: "world \<Rightarrow> pyval \<Rightarrow> exn + pystr" where
  "summary_items w v =
     (case v of
        VDict kvs \<Rightarrow>
          Inr (concat (map (\<lambda>(key, val). lit ''  '' @ bullet @ lit '' '' @ key @ lit '': ''
                                          @ py_str (repr_str w) val @ [10]) kvs))
      | _ \<Rightarrow> Inl (type_error w ''items'' v))"

definition result_line :: "world \<Rightarrow> pydict \<Rightarrow> string \<Rightarrow> pystr \<Rightarrow> pystr \<Rightarrow> pystr" where
  "result_line w res key pre post =
     (case map_of res (lit key) of
        Some v \<Rightarrow> pre @ py_str (repr_str w) v @ post
      | None \<Rightarrow> [])"

definition handle_job_result ::
  "world \<Rightarrow> 'j queue \<Rightarrow> pyval \<Rightarrow> ('s, content list) io" where
  "handle_job_result w q job_id =
     try_except
       (bind (ask (get_job_result q job_id)) (\<lambda>res.
        bind (ask (case map_of res (lit ''summary'') of
                     Some v \<Rightarrow>
                       bindE (summary_items w v) (\<lambda>items.
                         Inr (lit ''Quality Control Summary:'' @ [10] @ items @ [10]))
                   | None \<Rightarrow> Inr [])) (\<lambda>summary.
        ret [TextContent
               (lit ''FastQC Job '' @ py_str (repr_str w) job_id @ lit '' Results'' @ [10]
                @ replicate 50 61 @ [10, 10]
                @ summary
                @ result_line w res ''files_processed'' (lit ''Files processed: '') [10]
                @ result_line w res ''warnings'' (lit ''Quality warnings: '') [10]
                @ result_line w res ''failures'' (lit ''Quality failures: '') [10]
                @ result_line w res ''result_url'' ([10] @ lit ''Full results: '')
                    ([10] @ lit ''HTML reports and MultiQC data available for download.'' @ [10]
                     @ lit ''Results available for 7 days.'' @ [10]))])))
       (\<lambda>e. ret [ErrorContent (exn_str e)])"

definition handle_list_jobs :: "pydict \<Rightarrow> ('s, content list) io" where
  "handle_list_jobs arguments =
     ret [TextContent
            (lit ''Job listing not yet implemented.'' @ [10]
             @ lit ''Use individual job IDs to check status.'' @ [10]
             @ lit ''Example: get_job_status with your job ID'')]"

definition handle_cancel_job ::
  "world \<Rightarrow> 'j queue \<Rightarrow> pyval \<Rightarrow> ('s, content list) io" where
  "handle_cancel_job w q job_id =
     try_except
       (bind (ask (cancel_job q job_id)) (\<lambda>u.
        ret [TextContent (lit ''FastQC job '' @ py_str (repr_str w) job_id
                          @ lit '' cancelled successfully'')]))
       (\<lambda>e. ret [ErrorContent (exn_str e)])"

text \<open>
  The dispatch of the queue-backed server (lines 110 to 134). The function returns
  \<open>None\<close> where the source reaches the end of its body without a \<open>return\<close>. The last
  branch hands the call to \<open>super(FastQCServerWithQueue, self).server.call_tool\<close>, which
  is the parameter \<open>parent\<close>.
\<close>

definition queue_call_tool ::
  "world \<Rightarrow> 'j queue \<Rightarrow> (pystr \<Rightarrow> pydict \<Rightarrow> ('x effects_scheme, content list option) io)
     \<Rightarrow> pystr \<Rightarrow> pydict \<Rightarrow> ('x effects_scheme, content list option) io" where
  "queue_call_tool w q parent name arguments =
     (if endswith name (lit ''_async'') then
        (let base_name = take (length name - 6) name
         in case map_of async_tool_configs base_name of
              Some job_type \<Rightarrow>
                bind (handle_async_tool w q base_name job_type arguments) (\<lambda>r. ret (Some r))
            | None \<Rightarrow> ret None)
      else if name = lit ''get_job_status'' then
        bind (ask (subscript arguments ''job_id'')) (\<lambda>job_id.
        bind (handle_job_status q job_id) (\<lambda>r. ret (Some r)))
      else if name = lit ''get_job_result'' then
        bind (ask (subscript arguments ''job_id'')) (\<lambda>job_id.
        bind (handle_job_result w q job_id) (\<lambda>r. ret (Some r)))
      else if name = lit ''list_my_jobs'' then
        bind (handle_list_jobs arguments) (\<lambda>r. ret (Some r))
      else if name = lit ''cancel_job'' then
        bind (ask (subscript arguments ''job_id'')) (\<lambda>job_id.
        bind (handle_cancel_job w q job_id) (\<lambda>r. ret (Some r)))
      else parent name arguments)"

section \<open>The batch summary in the words of the specification\<close>

text \<open>
  What the specification says of the line of one input file, to be compared with what
  \<open>_summarize_batch_results\<close> writes: the number of lines of \<open>summary.txt\<close> that begin with
  a status, the glyph chosen from the warn and fail counts, and the line made of them.
\<close>

definition lines_beginning :: "pystr \<Rightarrow> pystr \<Rightarrow> int" where
  "lines_beginning status summary_text =
     int (length (filter (prefix status) (readlines summary_text)))"

definition expected_glyph :: "int \<Rightarrow> int \<Rightarrow> pystr" where
  "expected_glyph warn_count fail_count =
     (if fail_count > 0 then glyph_fail
      else if warn_count > 0 then glyph_warn
      else glyph_pass)"

definition expected_file_line :: "path \<Rightarrow> pystr \<Rightarrow> pystr" where
  "expected_file_line input_file summary_text =
     lit ''  ''
     @ expected_glyph (lines_beginning (lit ''WARN'') summary_text)
         (lines_beginning (lit ''FAIL'') summary_text)
     @ lit '' '' @ path_name input_file @ lit '': ''
     @ str_int (lines_beginning (lit ''PASS'') summary_text) @ lit ''P/''
     @ str_int (lines_beginning (lit ''WARN'') summary_text) @ lit ''W/''
     @ str_int (lines_beginning (lit ''FAIL'') summary_text) @ lit ''F'' @ [10]"

section \<open>Example environments\<close>

text \<open>
  A small file system and well-behaved tools, on which the theorems below are
  instantiated: a directory \<open>/data\<close> with the files \<open>reads.fastq\<close> (120 bytes) and
  \<open>big.fastq\<close> (5000 bytes), temporary directories named \<open>/tmp/tmpa1\<close>, and child
  processes that exit at once with status 0.
\<close>

definition example_settings :: ServerSettings where
  "example_settings =
     \<lparr> max_file_size = 1000, temp_dir = None, timeout = 1800,
       fastqc_path = lit ''fastqc'', multiqc_path = lit ''multiqc'' \<rparr>"

definition no_such_file :: exn where
  "no_such_file = Exn OSError (lit ''No such file or directory'')"

definition example_world :: world where
  "example_world =
     \<lparr> repr_str = (\<lambda>s. [39] @ s @ [39]),
       str_lower = map (\<lambda>c. if 65 \<le> c \<and> c \<le> 90 then c + 32 else c),
       type_error = (\<lambda>what v. Exn TypeError (lit what)),
       decode = Inr,
       path_exists = (\<lambda>p. Inr (path_str p = lit ''/data'' \<or> path_str p = lit ''/data/reads.fastq''
                                \<or> path_str p = lit ''/data/big.fastq'')),
       is_dir = (\<lambda>p. Inr (path_str p = lit ''/data'')),
       is_file = (\<lambda>p. Inr (path_str p = lit ''/data/reads.fastq''
                            \<or> path_str p = lit ''/data/big.fastq'')),
       st_size = (\<lambda>p. if path_str p = lit ''/data/reads.fastq'' then Inr 120
                       else if path_str p = lit ''/data/big.fastq'' then Inr 5000
                       else Inl no_such_file),
       read_text = (\<lambda>p. Inl no_such_file),
       read_bytes = (\<lambda>p. if path_str p = lit ''/data/reads.fastq'' then Inr [64, 114, 49, 10]
                          else Inl no_such_file),
       write_bytes = (\<lambda>p data. Inr ()),
       iterdir = (\<lambda>p. Inr []),
       glob = (\<lambda>p pattern. Inr []),
       mkdtemp = (\<lambda>dir. Inr (lit ''/tmp/tmpa1'')),
       mkdir = (\<lambda>p. Inr ()),
       create_subprocess_exec = (\<lambda>cmd cwd. Inr (Process (\<lambda>t. Some ([], [])) 0)),
       create_subprocess_shell = (\<lambda>cmd cwd. Inr (Process (\<lambda>t. Some ([], [])) 0)) \<rparr>"

text \<open>The same, with tools that never finish.\<close>

definition hanging_world :: world where
  "hanging_world =
     example_world
       \<lparr> create_subprocess_exec := (\<lambda>cmd cwd. Inr (Process (\<lambda>t. None) 0)),
         create_subprocess_shell := (\<lambda>cmd cwd. Inr (Process (\<lambda>t. None) 0)) \<rparr>"

text \<open>
  The same, after a FastQC run that left only a directory \<open>other_fastqc\<close> in its output
  directory.
\<close>

definition stray_world :: world where
  "stray_world =
     example_world
       \<lparr> iterdir := (\<lambda>p. Inr [joinpath p (lit ''other_fastqc'')]),
         is_dir := (\<lambda>p. Inr True) \<rparr>"

text \<open>
  The same, after a MultiQC run that wrote a report of 12345 bytes and the general
  statistics \<open>stats\<close>.
\<close>

definition multiqc_world :: "pystr \<Rightarrow> world" where
  "multiqc_world stats =
     example_world
       \<lparr> path_exists := (\<lambda>p. Inr (path_str p = lit ''/data''
             \<or> path_str p = lit ''/tmp/tmpa1/multiqc_output/multiqc_report.html''
             \<or> path_str p = lit ''/tmp/tmpa1/multiqc_output/multiqc_data/multiqc_general_stats.txt'')),
         st_size := (\<lambda>p. Inr 12345),
         read_text := (\<lambda>p. Inr stats) \<rparr>"

text \<open>The start of the report of \<open>multiqc_report\<close> on \<open>multiqc_world\<close>.\<close>

definition example_multiqc_head :: pystr where
  "example_multiqc_head =
     lit ''MultiQC report generated successfully!'' @ [10, 10]
     @ lit ''Report: /tmp/tmpa1/multiqc_output/multiqc_report.html'' @ [10]
     @ lit ''Data directory: /tmp/tmpa1/multiqc_output/multiqc_data'' @ [10, 10]
     @ lit ''Report size: 12,345 bytes'' @ [10]
     @ [10] @ lit ''General Statistics:'' @ [10]"

text \<open>
  The three lines of \<open>summary.txt\<close> of the specification's example, and an environment
  in which every output directory holds one directory \<open>sample_fastqc\<close> with that
  summary.
\<close>

definition example_summary :: pystr where
  "example_summary =
     lit ''PASS'' @ [9] @ lit ''Basic Statistics'' @ [10]
     @ lit ''WARN'' @ [9] @ lit ''Per base sequence quality'' @ [10]
     @ lit ''FAIL'' @ [9] @ lit ''Adapter Content'' @ [10]"

definition batch_world :: world where
  "batch_world =
     example_world
       \<lparr> path_exists := (\<lambda>p. Inr True),
         is_dir := (\<lambda>p. Inr True),
         read_text := (\<lambda>p. Inr example_summary),
         iterdir := (\<lambda>p. Inr [joinpath p (lit ''sample_fastqc'')]) \<rparr>"

text \<open>
  The same, after a FastQC run on \<open>reads.fastq\<close> that left the directories \<open>other_fastqc\<close>
  and \<open>reads_fastqc\<close>, every file of which exists: \<open>summary.txt\<close> is the example summary
  and any other file reads as \<open>example_data\<close>.
\<close>

definition example_data :: pystr where
  "example_data =
     lit ''>>Basic Statistics'' @ [9] @ lit ''pass'' @ [10]
     @ lit ''#Measure'' @ [9] @ lit ''Value'' @ [10]
     @ lit ''Filename'' @ [9] @ lit ''reads.fastq'' @ [10]
     @ lit ''Total Sequences'' @ [9] @ lit ''250'' @ [10]
     @ lit ''>>END_MODULE'' @ [10]"

definition found_world :: world where
  "found_world =
     example_world
       \<lparr> path_exists := (\<lambda>p. Inr True),
         is_dir := (\<lambda>p. Inr True),
         read_text := (\<lambda>p. if path_name p = lit ''summary.txt'' then Inr example_summary
                            else Inr example_data),
         iterdir := (\<lambda>p. Inr [joinpath p (lit ''other_fastqc''),
                                 joinpath p (lit ''reads_fastqc'')]) \<rparr>"

text \<open>The report of \<open>fastqc_single\<close> on \<open>found_world\<close> for \<open>/data/reads.fastq\<close>.\<close>

definition example_report :: pystr where
  "example_report =
     lit ''FastQC Analysis Complete for reads'' @ [10]
     @ replicate 50 61 @ [10, 10]
     @ lit ''Module Status Summary:'' @ [10]
     @ lit ''  '' @ glyph_pass @ lit '' Basic Statistics: PASS'' @ [10]
     @ lit ''  '' @ glyph_warn @ lit '' Per base sequence quality: WARN'' @ [10]
     @ lit ''  '' @ glyph_fail @ lit '' Adapter Content: FAIL'' @ [10]
     @ [10]
     @ lit ''Basic Statistics:'' @ [10]
     @ lit ''  '' @ bullet @ lit '' Filename: reads.fastq'' @ [10]
     @ lit ''  '' @ bullet @ lit '' Total Sequences: 250'' @ [10]
     @ [10] @ lit ''Output Files:'' @ [10]
     @ lit ''  '' @ bullet
     @ lit '' HTML Report: /tmp/tmpa1/fastqc_output/reads_fastqc/fastqc_report.html'' @ [10]
     @ lit ''  '' @ bullet
     @ lit '' Data File: /tmp/tmpa1/fastqc_output/reads_fastqc/fastqc_data.txt'' @ [10]
     @ lit ''  '' @ bullet
     @ lit '' Summary: /tmp/tmpa1/fastqc_output/reads_fastqc/summary.txt'' @ [10]"

text \<open>The batch summary on \<open>batch_world\<close> for \<open>/data/sample.fastq\<close> and \<open>/data/sample.fq\<close>.\<close>

definition example_batch_summary :: pystr where
  "example_batch_summary =
     lit ''FastQC Batch Analysis Complete'' @ [10]
     @ replicate 40 61 @ [10, 10]
     @ lit ''Processed 2 files:'' @ [10, 10]
     @ lit ''  '' @ glyph_fail @ lit '' sample.fastq: 1P/1W/1F'' @ [10]
     @ lit ''  '' @ glyph_fail @ lit '' sample.fq: 1P/1W/1F'' @ [10]
     @ [10] @ lit ''Overall Summary:'' @ [10]
     @ lit ''  '' @ bullet @ lit '' Total PASS: 2'' @ [10]
     @ lit ''  '' @ bullet @ lit '' Total WARN: 2'' @ [10]
     @ lit ''  '' @ bullet @ lit '' Total FAIL: 2'' @ [10, 10]
     @ lit ''Output directory: /tmp/tmpa1/fastqc_batch_output'' @ [10]
     @ [10]
     @ lit ''Tip: Run multiqc_report on this directory to generate a combined report!'' @ [10]"

text \<open>A natively installed tool, run as its path followed by its arguments.\<close>

definition example_detector :: detector where
  "example_detector =
     \<lparr> detect_tool = (\<lambda>tool_name names img preferred force.
         Inr \<lparr> mode = NATIVE, tool_path = Some (lit ''/usr/bin/'' @ tool_name),
               tool_version = None, tool_module = None, tool_image = None \<rparr>),
       get_execution_command = (\<lambda>info args.
         Inr (VStr (case tool_path info of Some p \<Rightarrow> p | None \<Rightarrow> []) # args)) \<rparr>"

definition example_enhanced_settings :: EnhancedSettings where
  "example_enhanced_settings =
     \<lparr> max_file_size = 1000, temp_dir = None, timeout = 1800,
       execution_mode = None,
       preferred_modes = lit ''native,module,lmod,singularity,docker'',
       module_names = lit ''fastqc,FastQC'',
       container_image = lit ''quay.io/biocontainers/fastqc:0.12.1'' \<rparr>"

definition initial_state :: effects where
  "initial_state = \<lparr> trace = [] \<rparr>"

definition initial_enhanced_state :: enhanced_state where
  "initial_enhanced_state = \<lparr> trace = [], fastqc_info = None, multiqc_info = None \<rparr>"

text \<open>A queue that numbers its jobs and accepts everything.\<close>

definition example_queue :: "nat queue" where
  "example_queue =
     \<lparr> submit_job = (\<lambda>job_type parameters priority tags. Inr 1),
       get_job_status = (\<lambda>job_id. Inr 1),
       get_job_result = (\<lambda>job_id. Inr []),
       cancel_job = (\<lambda>job_id. Inr ()),
       format_job_status = (\<lambda>job. Inr (lit ''Job '' @ str_nat job @ lit '': pending'')) \<rparr>"

text \<open>The inherited dispatch, as the basic server's \<open>call_tool\<close>.\<close>

definition example_parent ::
  "pystr \<Rightarrow> pydict \<Rightarrow> (effects, content list option) io" where
  "example_parent name arguments =
     bind (call_tool example_settings example_world name arguments) (\<lambda>r. ret (Some r))"

section \<open>Facts about the built-in operations\<close>

lemmas io_defs =
  ret_def raise_def ask_def bind_def emit_def try_except_def try_finally_def
  TemporaryDirectory_def do_mkdir_def do_subprocess_exec_def do_subprocess_shell_def
  do_write_bytes_def

lemmas path_defs =
  Path_def path_str_def joinpath_def path_name_def path_stem_def lit_def Let_def

lemmas fixture_defs =
  example_world_def hanging_world_def stray_world_def multiqc_world_def batch_world_def
  found_world_def
  example_settings_def no_such_file_def initial_state_def
  example_enhanced_settings_def example_detector_def initial_enhanced_state_def
  example_queue_def

lemma startswith_iff_prefix: "startswith s p \<longleftrightarrow> prefix p s"
  by (induction s p rule: startswith.induct) auto

lemma endswith_append: "endswith (b @ p) p"
  by (simp add: endswith_def startswith_iff_prefix)

lemma contains_iff_sublist: "contains s sub \<longleftrightarrow> sublist sub s"
  by (induction s) (auto simp: startswith_iff_prefix sublist_Cons_right)

lemma count_status_acc:
  "fold (\<lambda>line n. if startswith line status then n + 1 else n) ls (k::int)
     = k + int (length (filter (prefix status) ls))"
  by (induction ls arbitrary: k) (auto simp: startswith_iff_prefix)

lemma count_status_filter:
  "count_status status ls = int (length (filter (prefix status) ls))"
  by (simp add: count_status_def count_status_acc)

lemma find_fastqc_dir_find:
  "\<forall>item \<in> set items. \<exists>b. is_dir w item = Inr b \<Longrightarrow>
   find_fastqc_dir w items base =
     Inr (find (\<lambda>item. is_dir w item = Inr True \<and> sublist base (path_name item)) items)"
  by (induction items) (auto simp: bindE_def contains_iff_sublist)

lemma delete_filter: "AList.delete k d = filter (\<lambda>kv. fst kv \<noteq> k) d"
  by (induction d) auto

lemma dict_get_delete: "k \<noteq> k' \<Longrightarrow> dict_get (AList.delete k' d) k v = dict_get d k v"
  by (simp add: dict_get_def delete_conv')

lemma multiqc_not_fastqc: "lit ''multiqc'' \<noteq> lit ''fastqc''"
  by (simp add: lit_def)

lemma str_int_1: "str_int 1 = lit ''1''"
  by (simp add: str_int_def str_nat.simps lit_def)

lemma str_int_1000: "str_int 1000 = lit ''1000''"
  by (simp add: str_int_def str_nat.simps lit_def)

lemma str_int_1800: "str_int 1800 = lit ''1800''"
  by (simp add: str_int_def str_nat.simps lit_def)

lemma format_commas_12345: "format_commas 12345 = lit ''12,345''"
  by (simp add: format_commas_def str_nat.simps lit_def)

lemma readlines_example_summary:
  "readlines example_summary =
     [lit ''PASS'' @ [9] @ lit ''Basic Statistics'' @ [10],
      lit ''WARN'' @ [9] @ lit ''Per base sequence quality'' @ [10],
      lit ''FAIL'' @ [9] @ lit ''Adapter Content'' @ [10]]"
  by (simp add: example_summary_def readlines_def lit_def)

subsection \<open>Runs of the basic server that reach the result interpreter\<close>

lemma run_fastqc_single_ok:
  assumes "map_of arguments (lit ''input_file'') = Some (VStr f)"
    and "path_exists w (Path f) = Inr True"
    and "st_size w (Path f) = Inr n"
    and "n \<le> max_file_size settings"
    and "mkdtemp w (temp_dir settings) = Inr tmpdir"
    and "mkdir w (joinpath (Path tmpdir) (lit ''fastqc_output'')) = Inr ()"
    and "create_subprocess_exec w
           (fastqc_single_cmd settings w arguments
              (joinpath (Path tmpdir) (lit ''fastqc_output'')) (Path f))
           None = Inr process"
    and "communicate process (timeout settings) = Some (out, err)"
    and "returncode process = 0"
  shows "fst (run_fastqc_single settings w arguments s) =
     Inr [TextContent (parse_fastqc_results w (joinpath (Path tmpdir) (lit ''fastqc_output''))
                         (path_stem (Path f)))]"
  using assms by (simp add: run_fastqc_single_def io_defs subscript_def Path_of_def Let_def)

lemma run_multiqc_ok:
  assumes "map_of arguments (lit ''input_dir'') = Some (VStr d)"
    and "path_exists w (Path d) = Inr True"
    and "mkdtemp w (temp_dir settings) = Inr tmpdir"
    and "mkdir w (joinpath (Path tmpdir) (lit ''multiqc_output'')) = Inr ()"
    and "create_subprocess_exec w
           (multiqc_cmd settings arguments (Path d) (joinpath (Path tmpdir) (lit ''multiqc_output'')))
           None = Inr process"
    and "communicate process (timeout settings) = Some (out, err)"
    and "returncode process = 0"
    and "multiqc_result w (joinpath (Path tmpdir) (lit ''multiqc_output'')) = Inr report"
  shows "fst (run_multiqc settings w arguments s) = Inr [TextContent report]"
  using assms by (simp add: run_multiqc_def io_defs subscript_def Path_of_def Let_def)

lemma multiqc_result_stats:
  assumes "path_exists w (joinpath output_dir (lit ''multiqc_report.html'')) = Inr has_report"
    and "has_report \<longrightarrow>
           st_size w (joinpath output_dir (lit ''multiqc_report.html'')) = Inr report_size"
    and "path_exists w (joinpath (joinpath output_dir (lit ''multiqc_data''))
           (lit ''multiqc_general_stats.txt'')) = Inr True"
    and "read_text w (joinpath (joinpath output_dir (lit ''multiqc_data''))
           (lit ''multiqc_general_stats.txt'')) = Inr stats"
  shows "multiqc_result w output_dir =
     Inr (lit ''MultiQC report generated successfully!'' @ [10, 10]
        @ lit ''Report: '' @ path_str (joinpath output_dir (lit ''multiqc_report.html'')) @ [10]
        @ lit ''Data directory: '' @ path_str (joinpath output_dir (lit ''multiqc_data'')) @ [10, 10]
        @ (if has_report
           then lit ''Report size: '' @ format_commas report_size @ lit '' bytes'' @ [10] else [])
        @ [10] @ lit ''General Statistics:'' @ [10]
        @ take 1000 stats @ lit ''...'')"
  using assms by (simp add: multiqc_result_def bindE_def Let_def)

lemma multiqc_world_run:
  "fst (run_multiqc example_settings (multiqc_world stats)
          [(lit ''input_dir'', VStr (lit ''/data''))] initial_state)
   = Inr [TextContent (example_multiqc_head @ take 1000 stats @ lit ''...'')]"
proof -
  let ?w = "multiqc_world stats"
  let ?args = "[(lit ''input_dir'', VStr (lit ''/data''))]"
  let ?out = "joinpath (Path (lit ''/tmp/tmpa1'')) (lit ''multiqc_output'')"
  have h1: "map_of ?args (lit ''input_dir'') = Some (VStr (lit ''/data''))" by simp
  have h2: "path_exists ?w (Path (lit ''/data'')) = Inr True"
    by (simp add: fixture_defs path_defs)
  have h3: "mkdtemp ?w (temp_dir example_settings) = Inr (lit ''/tmp/tmpa1'')"
    by (simp add: fixture_defs)
  have h4: "mkdir ?w ?out = Inr ()"
    by (simp add: fixture_defs)
  have h5: "create_subprocess_exec ?w
        (multiqc_cmd example_settings ?args (Path (lit ''/data'')) ?out) None
      = Inr (Process (\<lambda>t. Some ([], [])) 0)"
    by (simp add: fixture_defs)
  have h6: "communicate (Process (\<lambda>t. Some ([], [])) 0) (timeout example_settings) = Some ([], [])"
    by simp
  have h7: "returncode (Process (\<lambda>t. Some ([], [])) 0) = 0"
    by simp
  have h8: "multiqc_result ?w ?out = Inr (example_multiqc_head @ take 1000 stats @ lit ''...'')"
    by (simp add: multiqc_result_def bindE_def fixture_defs path_defs format_commas_12345
          example_multiqc_head_def)
  show ?thesis
    by (rule run_multiqc_ok[OF h1 h2 h3 h4 h5 h6 h7 h8])
qed

subsection \<open>The result interpreter when the results are found\<close>

lemma parse_fastqc_results_found:
  assumes "iterdir w output_dir = Inr items"
    and "find_fastqc_dir w items filename_base = Inr (Some fastqc_dir)"
    and "path_exists w (joinpath fastqc_dir (lit ''summary.txt'')) = Inr has_summary"
    and "has_summary \<longrightarrow> read_text w (joinpath fastqc_dir (lit ''summary.txt'')) = Inr summary_text"
    and "path_exists w (joinpath fastqc_dir (lit ''fastqc_data.txt'')) = Inr has_data"
    and "has_data \<longrightarrow> read_text w (joinpath fastqc_dir (lit ''fastqc_data.txt'')) = Inr content"
  shows "parse_fastqc_results w output_dir filename_base =
     lit ''FastQC Analysis Complete for '' @ filename_base @ [10] @ replicate 50 61 @ [10, 10]
     @ (if has_summary
        then lit ''Module Status Summary:'' @ [10]
             @ concat (map render_summary_line (readlines summary_text)) @ [10]
        else [])
     @ (if has_data
        then lit ''Basic Statistics:'' @ [10] @ basic_statistics False (split_chr 10 content)
        else [])
     @ [10] @ lit ''Output Files:'' @ [10]
     @ lit ''  '' @ bullet @ lit '' HTML Report: ''
     @ path_str (joinpath fastqc_dir (lit ''fastqc_report.html'')) @ [10]
     @ lit ''  '' @ bullet @ lit '' Data File: ''
     @ path_str (joinpath fastqc_dir (lit ''fastqc_data.txt'')) @ [10]
     @ lit ''  '' @ bullet @ lit '' Summary: ''
     @ path_str (joinpath fastqc_dir (lit ''summary.txt'')) @ [10]"
  using assms
  by (simp add: parse_fastqc_results_def parse_fastqc_results_body_def bindE_def Let_def)

lemma render_example_summary:
  "concat (map render_summary_line (readlines example_summary)) =
     lit ''  '' @ glyph_pass @ lit '' Basic Statistics: PASS'' @ [10]
     @ lit ''  '' @ glyph_warn @ lit '' Per base sequence quality: WARN'' @ [10]
     @ lit ''  '' @ glyph_fail @ lit '' Adapter Content: FAIL'' @ [10]"
  unfolding readlines_example_summary
  by (simp add: render_summary_line_def strip_def isspace_def lit_def Let_def)

lemma basic_statistics_example_data:
  "basic_statistics False (split_chr 10 example_data) =
     lit ''  '' @ bullet @ lit '' Filename: reads.fastq'' @ [10]
     @ lit ''  '' @ bullet @ lit '' Total Sequences: 250'' @ [10]"
  by (simp add: example_data_def lit_def Let_def)

lemma summarize_file_found:
  assumes "iterdir w output_dir = Inr items"
    and "find_fastqc_dir w items
           (replace (lit ''.fq'') [] (replace (lit ''.fastq'') [] (path_stem input_file)))
         = Inr (Some fastqc_dir)"
    and "path_exists w (joinpath fastqc_dir (lit ''summary.txt'')) = Inr True"
    and "read_text w (joinpath fastqc_dir (lit ''summary.txt'')) = Inr summary_text"
  shows "summarize_file w output_dir input_file acc =
     Inr \<lparr> result = result acc @ expected_file_line input_file summary_text,
            total_pass = total_pass acc + lines_beginning (lit ''PASS'') summary_text,
            total_warn = total_warn acc + lines_beginning (lit ''WARN'') summary_text,
            total_fail = total_fail acc + lines_beginning (lit ''FAIL'') summary_text \<rparr>"
proof -
  have st: "file_status (lines_beginning (lit ''WARN'') summary_text)
                (lines_beginning (lit ''FAIL'') summary_text)
      = expected_glyph (lines_beginning (lit ''WARN'') summary_text)
                (lines_beginning (lit ''FAIL'') summary_text)"
    by (auto simp: file_status_def expected_glyph_def lines_beginning_def)
  show ?thesis
    using assms
    by (simp add: summarize_file_def bindE_def Let_def count_status_filter
          lines_beginning_def [symmetric] st expected_file_line_def)
qed

lemma summarize_files_found:
  assumes "iterdir w output_dir = Inr items"
    and "\<forall>f \<in> set files.
           \<exists>fastqc_dir.
             find_fastqc_dir w items
               (replace (lit ''.fq'') [] (replace (lit ''.fastq'') [] (path_stem f)))
             = Inr (Some fastqc_dir)
           \<and> path_exists w (joinpath fastqc_dir (lit ''summary.txt'')) = Inr True
           \<and> read_text w (joinpath fastqc_dir (lit ''summary.txt'')) = Inr (summary_of f)"
  shows "summarize_files w output_dir files acc =
     Inr \<lparr> result = result acc @ concat (map (\<lambda>f. expected_file_line f (summary_of f)) files),
            total_pass = total_pass acc
               + sum_list (map (\<lambda>f. lines_beginning (lit ''PASS'') (summary_of f)) files),
            total_warn = total_warn acc
               + sum_list (map (\<lambda>f. lines_beginning (lit ''WARN'') (summary_of f)) files),
            total_fail = total_fail acc
               + sum_list (map (\<lambda>f. lines_beginning (lit ''FAIL'') (summary_of f)) files) \<rparr>"
  using assms(2)
proof (induction files arbitrary: acc)
  case Nil
  then show ?case by simp
next
  case (Cons f files)
  from Cons.prems obtain fastqc_dir where
    d: "find_fastqc_dir w items
          (replace (lit ''.fq'') [] (replace (lit ''.fastq'') [] (path_stem f)))
        = Inr (Some fastqc_dir)"
       "path_exists w (joinpath fastqc_dir (lit ''summary.txt'')) = Inr True"
       "read_text w (joinpath fastqc_dir (lit ''summary.txt'')) = Inr (summary_of f)"
    by auto
  have rest: "\<forall>f \<in> set files.
           \<exists>fastqc_dir.
             find_fastqc_dir w items
               (replace (lit ''.fq'') [] (replace (lit ''.fastq'') [] (path_stem f)))
             = Inr (Some fastqc_dir)
           \<and> path_exists w (joinpath fastqc_dir (lit ''summary.txt'')) = Inr True
           \<and> read_text w (joinpath fastqc_dir (lit ''summary.txt'')) = Inr (summary_of f)"
    using Cons.prems by simp
  show ?case
    by (simp add: summarize_file_found[OF assms(1) d] bindE_def Cons.IH[OF rest])
qed

lemma lines_beginning_example:
  "lines_beginning (lit ''PASS'') example_summary = 1"
  "lines_beginning (lit ''WARN'') example_summary = 1"
  "lines_beginning (lit ''FAIL'') example_summary = 1"
  unfolding lines_beginning_def readlines_example_summary by (simp_all add: lit_def)

subsection \<open>Tool detection in the example environments\<close>

lemma example_detect:
  "detect_tool_mode example_enhanced_settings example_world example_detector tool s
   = (Inr \<lparr> mode = NATIVE, tool_path = Some (lit ''/usr/bin/'' @ tool),
             tool_version = None, tool_module = None, tool_image = None \<rparr>, s)"
  by (simp add: detect_tool_mode_def example_enhanced_settings_def example_detector_def
        example_world_def io_defs lit_def ExecutionMode_of_def strip_def isspace_def)

lemma hanging_detect:
  "detect_tool_mode example_enhanced_settings hanging_world example_detector tool s
   = (Inr \<lparr> mode = NATIVE, tool_path = Some (lit ''/usr/bin/'' @ tool),
             tool_version = None, tool_module = None, tool_image = None \<rparr>, s)"
  by (simp add: detect_tool_mode_def example_enhanced_settings_def example_detector_def
        example_world_def hanging_world_def io_defs lit_def ExecutionMode_of_def strip_def
        isspace_def)

section \<open>The claims about the basic server\<close>

text \<open>
  C1. A \<open>fastqc_single\<close> call whose \<open>input_file\<close> exists and is larger than
  \<open>max_file_size\<close> returns the error content \<open>File too large. Maximum size: \<dots> bytes\<close>
  with the configured limit in it, and leaves the state as it was: nothing is added to
  the trace, so no temporary directory is created and no subprocess is spawned.
\<close>

theorem C1_file_too_large:
  assumes "map_of arguments (lit ''input_file'') = Some (VStr f)"
    and "path_exists w (Path f) = Inr True"
    and "st_size w (Path f) = Inr n"
    and "n > max_file_size settings"
  shows "run_fastqc_single settings w arguments s =
     (Inr [ErrorContent (lit ''File too large. Maximum size: ''
                         @ str_int (max_file_size settings) @ lit '' bytes'')], s)"
  using assms by (simp add: run_fastqc_single_def io_defs subscript_def Path_of_def)

text \<open>
  On the example environment: \<open>/data/big.fastq\<close> has 5000 bytes and the limit is 1000.
\<close>

theorem C1_file_too_large_witness:
  "map_of [(lit ''input_file'', VStr (lit ''/data/big.fastq''))] (lit ''input_file'')
      = Some (VStr (lit ''/data/big.fastq''))
   \<and> path_exists example_world (Path (lit ''/data/big.fastq'')) = Inr True
   \<and> st_size example_world (Path (lit ''/data/big.fastq'')) = Inr 5000
   \<and> 5000 > max_file_size example_settings
   \<and> run_fastqc_single example_settings example_world
        [(lit ''input_file'', VStr (lit ''/data/big.fastq''))] initial_state
      = (Inr [ErrorContent (lit ''File too large. Maximum size: 1000 bytes'')], initial_state)"
proof -
  have h1: "map_of [(lit ''input_file'', VStr (lit ''/data/big.fastq''))] (lit ''input_file'')
      = Some (VStr (lit ''/data/big.fastq''))" by simp
  have h2: "path_exists example_world (Path (lit ''/data/big.fastq'')) = Inr True"
    by (simp add: example_world_def path_defs)
  have h3: "st_size example_world (Path (lit ''/data/big.fastq'')) = Inr 5000"
    by (simp add: example_world_def path_defs)
  have h4: "5000 > max_file_size example_settings"
    by (simp add: example_settings_def)
  have c: "run_fastqc_single example_settings example_world
        [(lit ''input_file'', VStr (lit ''/data/big.fastq''))] initial_state
      = (Inr [ErrorContent (lit ''File too large. Maximum size: 1000 bytes'')], initial_state)"
    using C1_file_too_large[OF h1 h2 h3 h4, of initial_state]
    by (simp add: example_settings_def str_int_1000) (simp add: lit_def)
  show ?thesis using h1 h2 h3 h4 c by blast
qed

text \<open>
  C5. A \<open>fastqc_single\<close> run whose subprocess does not finish within the configured
  timeout kills the subprocess (the event \<open>Kill\<close> follows the spawn in the trace) and
  returns the error content \<open>FastQC timed out after \<dots> seconds\<close> with the configured
  timeout in it.
\<close>

theorem C5_timeout_kills_and_reports:
  assumes "map_of arguments (lit ''input_file'') = Some (VStr f)"
    and "path_exists w (Path f) = Inr True"
    and "st_size w (Path f) = Inr n"
    and "n \<le> max_file_size settings"
    and "mkdtemp w (temp_dir settings) = Inr tmpdir"
    and "mkdir w (joinpath (Path tmpdir) (lit ''fastqc_output'')) = Inr ()"
    and "create_subprocess_exec w
           (fastqc_single_cmd settings w arguments
              (joinpath (Path tmpdir) (lit ''fastqc_output'')) (Path f))
           None = Inr process"
    and "communicate process (timeout settings) = None"
  shows "run_fastqc_single settings w arguments s =
     (Inr [ErrorContent (lit ''FastQC timed out after '' @ str_int (timeout settings)
                         @ lit '' seconds'')],
      s\<lparr>trace := trace s @
         [TempDirCreated tmpdir,
          Mkdir (joinpath (Path tmpdir) (lit ''fastqc_output'')),
          SpawnExec (fastqc_single_cmd settings w arguments
                       (joinpath (Path tmpdir) (lit ''fastqc_output'')) (Path f)) None,
          Kill,
          TempDirRemoved tmpdir]\<rparr>)"
  using assms by (simp add: run_fastqc_single_def io_defs subscript_def Path_of_def Let_def)

text \<open>On the environment whose tools never finish, with the timeout of 1800 seconds.\<close>

theorem C5_timeout_kills_and_reports_witness:
  "communicate (Process (\<lambda>t. None) 0) (timeout example_settings) = None
   \<and> run_fastqc_single example_settings hanging_world
        [(lit ''input_file'', VStr (lit ''/data/reads.fastq''))] initial_state
      = (Inr [ErrorContent (lit ''FastQC timed out after 1800 seconds'')],
         \<lparr>trace =
            [TempDirCreated (lit ''/tmp/tmpa1''),
             Mkdir (Path (lit ''/tmp/tmpa1/fastqc_output'')),
             SpawnExec
               [VStr (lit ''fastqc''), VStr (lit ''--outdir''),
                VStr (lit ''/tmp/tmpa1/fastqc_output''),
                VStr (lit ''--threads''), VStr (lit ''1''), VStr (lit ''--extract''),
                VStr (lit ''/data/reads.fastq'')] None,
             Kill,
             TempDirRemoved (lit ''/tmp/tmpa1'')]\<rparr>)"
proof -
  let ?args = "[(lit ''input_file'', VStr (lit ''/data/reads.fastq''))]"
  let ?out = "joinpath (Path (lit ''/tmp/tmpa1'')) (lit ''fastqc_output'')"
  have h1: "map_of ?args (lit ''input_file'') = Some (VStr (lit ''/data/reads.fastq''))" by simp
  have h2: "path_exists hanging_world (Path (lit ''/data/reads.fastq'')) = Inr True"
    by (simp add: fixture_defs path_defs)
  have h3: "st_size hanging_world (Path (lit ''/data/reads.fastq'')) = Inr 120"
    by (simp add: fixture_defs path_defs)
  have h4: "120 \<le> max_file_size example_settings"
    by (simp add: example_settings_def)
  have h5: "mkdtemp hanging_world (temp_dir example_settings) = Inr (lit ''/tmp/tmpa1'')"
    by (simp add: fixture_defs)
  have h6: "mkdir hanging_world ?out = Inr ()"
    by (simp add: fixture_defs)
  have h7: "create_subprocess_exec hanging_world
        (fastqc_single_cmd example_settings hanging_world ?args ?out
           (Path (lit ''/data/reads.fastq'')))
        None = Inr (Process (\<lambda>t. None) 0)"
    by (simp add: fixture_defs)
  have h8: "communicate (Process (\<lambda>t. None) 0) (timeout example_settings) = None"
    by simp
  have out: "?out = Path (lit ''/tmp/tmpa1/fastqc_output'')"
    by (simp add: path_defs)
  have cmd: "fastqc_single_cmd example_settings hanging_world ?args
        (Path (lit ''/tmp/tmpa1/fastqc_output'')) (Path (lit ''/data/reads.fastq''))
      = [VStr (lit ''fastqc''), VStr (lit ''--outdir''), VStr (lit ''/tmp/tmpa1/fastqc_output''),
         VStr (lit ''--threads''), VStr (lit ''1''), VStr (lit ''--extract''),
         VStr (lit ''/data/reads.fastq'')]"
    by (simp add: fastqc_single_cmd_def example_settings_def optional_flag_def dict_get_def
          py_str_def str_int_def str_nat.simps path_defs)
  have c: "run_fastqc_single example_settings hanging_world ?args initial_state
      = (Inr [ErrorContent (lit ''FastQC timed out after 1800 seconds'')],
         \<lparr>trace =
            [TempDirCreated (lit ''/tmp/tmpa1''),
             Mkdir (Path (lit ''/tmp/tmpa1/fastqc_output'')),
             SpawnExec
               [VStr (lit ''fastqc''), VStr (lit ''--outdir''),
                VStr (lit ''/tmp/tmpa1/fastqc_output''),
                VStr (lit ''--threads''), VStr (lit ''1''), VStr (lit ''--extract''),
                VStr (lit ''/data/reads.fastq'')] None,
             Kill,
             TempDirRemoved (lit ''/tmp/tmpa1'')]\<rparr>)"
    using C5_timeout_kills_and_reports[OF h1 h2 h3 h4 h5 h6 h7 h8, of initial_state]
    unfolding out cmd
    by (simp add: example_settings_def str_int_1800 initial_state_def) (simp add: lit_def)
  show ?thesis using h8 c by blast
qed

text \<open>
  C8. A \<open>fastqc_batch\<close> call whose \<open>input_dir\<close> exists and whose pattern (the argument
  \<open>file_pattern\<close>, or \<open>*.fastq*\<close> without it) matches no file returns the error content
  \<open>No files found matching pattern '\<dots>' in \<dots>\<close> with the pattern and the directory in it,
  and leaves the state as it was: no subprocess is spawned.
\<close>

theorem C8_no_files_matched:
  assumes "map_of arguments (lit ''input_dir'') = Some (VStr d)"
    and "path_exists w (Path d) = Inr True"
    and "glob w (Path d) (dict_get arguments (lit ''file_pattern'') (VStr (lit ''*.fastq*'')))
         = Inr []"
  shows "run_fastqc_batch settings w arguments s =
     (Inr [ErrorContent
             (lit ''No files found matching pattern '' @ [39]
              @ py_str (repr_str w)
                  (dict_get arguments (lit ''file_pattern'') (VStr (lit ''*.fastq*''))) @ [39]
              @ lit '' in '' @ path_str (Path d))], s)"
  using assms by (simp add: run_fastqc_batch_def io_defs subscript_def Path_of_def Let_def)

text \<open>On the example environment, where no pattern matches anything in \<open>/data\<close>.\<close>

theorem C8_no_files_matched_witness:
  "path_exists example_world (Path (lit ''/data'')) = Inr True
   \<and> glob example_world (Path (lit ''/data''))
        (dict_get [(lit ''input_dir'', VStr (lit ''/data''))] (lit ''file_pattern'')
           (VStr (lit ''*.fastq*'')))
      = Inr []
   \<and> run_fastqc_batch example_settings example_world
        [(lit ''input_dir'', VStr (lit ''/data''))] initial_state
      = (Inr [ErrorContent (lit ''No files found matching pattern '*.fastq*' in /data'')],
         initial_state)"
proof -
  let ?args = "[(lit ''input_dir'', VStr (lit ''/data''))]"
  have h1: "map_of ?args (lit ''input_dir'') = Some (VStr (lit ''/data''))" by simp
  have h2: "path_exists example_world (Path (lit ''/data'')) = Inr True"
    by (simp add: fixture_defs path_defs)
  have h3: "glob example_world (Path (lit ''/data''))
        (dict_get ?args (lit ''file_pattern'') (VStr (lit ''*.fastq*''))) = Inr []"
    by (simp add: fixture_defs)
  have c: "run_fastqc_batch example_settings example_world ?args initial_state
      = (Inr [ErrorContent (lit ''No files found matching pattern '*.fastq*' in /data'')],
         initial_state)"
    using C8_no_files_matched[OF h1 h2 h3, of example_settings initial_state]
    by (simp add: dict_get_def py_str_def path_defs)
  show ?thesis using h2 h3 c by blast
qed

text \<open>
  C9. In a \<open>fastqc_single\<close> run whose FastQC process exits with status 0, the result
  interpreter takes as results directory the first entry of the output directory that is a
  directory and whose name contains the stem of the input file. When there is no such
  entry, the operation returns the text content \<open>FastQC completed but results directory
  not found\<close>, not an error. When there is one, the operation returns the report built
  from that directory: the heading with the stem, the module summary when \<open>summary.txt\<close>
  exists, the basic statistics when \<open>fastqc_data.txt\<close> exists, and the paths of the three
  files in that directory.
\<close>

theorem C9_results_directory:
  assumes "map_of arguments (lit ''input_file'') = Some (VStr f)"
    and "path_exists w (Path f) = Inr True"
    and "st_size w (Path f) = Inr n"
    and "n \<le> max_file_size settings"
    and "mkdtemp w (temp_dir settings) = Inr tmpdir"
    and "mkdir w (joinpath (Path tmpdir) (lit ''fastqc_output'')) = Inr ()"
    and "create_subprocess_exec w
           (fastqc_single_cmd settings w arguments
              (joinpath (Path tmpdir) (lit ''fastqc_output'')) (Path f))
           None = Inr process"
    and "communicate process (timeout settings) = Some (out, err)"
    and "returncode process = 0"
    and "iterdir w (joinpath (Path tmpdir) (lit ''fastqc_output'')) = Inr items"
    and "\<forall>item \<in> set items. \<exists>b. is_dir w item = Inr b"
  shows "find_fastqc_dir w items (path_stem (Path f)) =
           Inr (find (\<lambda>item. is_dir w item = Inr True
                            \<and> sublist (path_stem (Path f)) (path_name item)) items)
     \<and> (find (\<lambda>item. is_dir w item = Inr True
                      \<and> sublist (path_stem (Path f)) (path_name item)) items = None
          \<longrightarrow> fst (run_fastqc_single settings w arguments s) =
                Inr [TextContent (lit ''FastQC completed but results directory not found'')])
     \<and> (\<forall>fastqc_dir.
           find (\<lambda>item. is_dir w item = Inr True
                      \<and> sublist (path_stem (Path f)) (path_name item)) items = Some fastqc_dir
           \<and> path_exists w (joinpath fastqc_dir (lit ''summary.txt'')) = Inr has_summary
           \<and> (has_summary \<longrightarrow>
                 read_text w (joinpath fastqc_dir (lit ''summary.txt'')) = Inr summary_text)
           \<and> path_exists w (joinpath fastqc_dir (lit ''fastqc_data.txt'')) = Inr has_data
           \<and> (has_data \<longrightarrow>
                 read_text w (joinpath fastqc_dir (lit ''fastqc_data.txt'')) = Inr content)
          \<longrightarrow> fst (run_fastqc_single settings w arguments s) =
                Inr [TextContent
                  (lit ''FastQC Analysis Complete for '' @ path_stem (Path f) @ [10]
                   @ replicate 50 61 @ [10, 10]
                   @ (if has_summary
                      then lit ''Module Status Summary:'' @ [10]
                           @ concat (map render_summary_line (readlines summary_text)) @ [10]
                      else [])
                   @ (if has_data
                      then lit ''Basic Statistics:'' @ [10]
                           @ basic_statistics False (split_chr 10 content)
                      else [])
                   @ [10] @ lit ''Output Files:'' @ [10]
                   @ lit ''  '' @ bullet @ lit '' HTML Report: ''
                   @ path_str (joinpath fastqc_dir (lit ''fastqc_report.html'')) @ [10]
                   @ lit ''  '' @ bullet @ lit '' Data File: ''
                   @ path_str (joinpath fastqc_dir (lit ''fastqc_data.txt'')) @ [10]
                   @ lit ''  '' @ bullet @ lit '' Summary: ''
                   @ path_str (joinpath fastqc_dir (lit ''summary.txt'')) @ [10])])"
proof -
  let ?out = "joinpath (Path tmpdir) (lit ''fastqc_output'')"
  let ?P = "\<lambda>item. is_dir w item = Inr True \<and> sublist (path_stem (Path f)) (path_name item)"
  have located: "find_fastqc_dir w items (path_stem (Path f)) = Inr (find ?P items)"
    using assms(11) by (rule find_fastqc_dir_find)
  have run: "fst (run_fastqc_single settings w arguments s) =
     Inr [TextContent (parse_fastqc_results w ?out (path_stem (Path f)))]"
    using assms(1-9) by (rule run_fastqc_single_ok)
  have missing: "find ?P items = None
      \<longrightarrow> fst (run_fastqc_single settings w arguments s) =
            Inr [TextContent (lit ''FastQC completed but results directory not found'')]"
    using located run assms(10)
    by (simp add: parse_fastqc_results_def parse_fastqc_results_body_def bindE_def)
  have found: "\<forall>fastqc_dir.
           find ?P items = Some fastqc_dir
           \<and> path_exists w (joinpath fastqc_dir (lit ''summary.txt'')) = Inr has_summary
           \<and> (has_summary \<longrightarrow>
                 read_text w (joinpath fastqc_dir (lit ''summary.txt'')) = Inr summary_text)
           \<and> path_exists w (joinpath fastqc_dir (lit ''fastqc_data.txt'')) = Inr has_data
           \<and> (has_data \<longrightarrow>
                 read_text w (joinpath fastqc_dir (lit ''fastqc_data.txt'')) = Inr content)
          \<longrightarrow> fst (run_fastqc_single settings w arguments s) =
                Inr [TextContent
                  (lit ''FastQC Analysis Complete for '' @ path_stem (Path f) @ [10]
                   @ replicate 50 61 @ [10, 10]
                   @ (if has_summary
                      then lit ''Module Status Summary:'' @ [10]
                           @ concat (map render_summary_line (readlines summary_text)) @ [10]
                      else [])
                   @ (if has_data
                      then lit ''Basic Statistics:'' @ [10]
                           @ basic_statistics False (split_chr 10 content)
                      else [])
                   @ [10] @ lit ''Output Files:'' @ [10]
                   @ lit ''  '' @ bullet @ lit '' HTML Report: ''
                   @ path_str (joinpath fastqc_dir (lit ''fastqc_report.html'')) @ [10]
                   @ lit ''  '' @ bullet @ lit '' Data File: ''
                   @ path_str (joinpath fastqc_dir (lit ''fastqc_data.txt'')) @ [10]
                   @ lit ''  '' @ bullet @ lit '' Summary: ''
                   @ path_str (joinpath fastqc_dir (lit ''summary.txt'')) @ [10])]"
  proof (intro allI impI, elim conjE)
    fix fastqc_dir
    assume a: "find ?P items = Some fastqc_dir"
      and b: "path_exists w (joinpath fastqc_dir (lit ''summary.txt'')) = Inr has_summary"
         "has_summary \<longrightarrow>
             read_text w (joinpath fastqc_dir (lit ''summary.txt'')) = Inr summary_text"
         "path_exists w (joinpath fastqc_dir (lit ''fastqc_data.txt'')) = Inr has_data"
         "has_data \<longrightarrow>
             read_text w (joinpath fastqc_dir (lit ''fastqc_data.txt'')) = Inr content"
    have loc: "find_fastqc_dir w items (path_stem (Path f)) = Inr (Some fastqc_dir)"
      using located a by simp
    show "fst (run_fastqc_single settings w arguments s) =
                Inr [TextContent
                  (lit ''FastQC Analysis Complete for '' @ path_stem (Path f) @ [10]
                   @ replicate 50 61 @ [10, 10]
                   @ (if has_summary
                      then lit ''Module Status Summary:'' @ [10]
                           @ concat (map render_summary_line (readlines summary_text)) @ [10]
                      else [])
                   @ (if has_data
                      then lit ''Basic Statistics:'' @ [10]
                           @ basic_statistics False (split_chr 10 content)
                      else [])
                   @ [10] @ lit ''Output Files:'' @ [10]
                   @ lit ''  '' @ bullet @ lit '' HTML Report: ''
                   @ path_str (joinpath fastqc_dir (lit ''fastqc_report.html'')) @ [10]
                   @ lit ''  '' @ bullet @ lit '' Data File: ''
                   @ path_str (joinpath fastqc_dir (lit ''fastqc_data.txt'')) @ [10]
                   @ lit ''  '' @ bullet @ lit '' Summary: ''
                   @ path_str (joinpath fastqc_dir (lit ''summary.txt'')) @ [10])]"
      unfolding run
      by (simp only: parse_fastqc_results_found[OF assms(10) loc b])
  qed
  from located missing found show ?thesis by blast
qed

text \<open>
  On two environments, for the input \<open>/data/reads.fastq\<close> with stem \<open>reads\<close>: one whose
  output directory holds only \<open>other_fastqc\<close>, and one where it holds \<open>other_fastqc\<close> and
  \<open>reads_fastqc\<close>, the second of which is taken.
\<close>

theorem C9_results_directory_witness:
  "find (\<lambda>item. is_dir stray_world item = Inr True
                  \<and> sublist (path_stem (Path (lit ''/data/reads.fastq''))) (path_name item))
          [Path (lit ''/tmp/tmpa1/fastqc_output/other_fastqc'')] = None
   \<and> fst (run_fastqc_single example_settings stray_world
        [(lit ''input_file'', VStr (lit ''/data/reads.fastq''))] initial_state)
      = Inr [TextContent (lit ''FastQC completed but results directory not found'')]
   \<and> find (\<lambda>item. is_dir found_world item = Inr True
                  \<and> sublist (path_stem (Path (lit ''/data/reads.fastq''))) (path_name item))
          [Path (lit ''/tmp/tmpa1/fastqc_output/other_fastqc''),
           Path (lit ''/tmp/tmpa1/fastqc_output/reads_fastqc'')]
      = Some (Path (lit ''/tmp/tmpa1/fastqc_output/reads_fastqc''))
   \<and> fst (run_fastqc_single example_settings found_world
        [(lit ''input_file'', VStr (lit ''/data/reads.fastq''))] initial_state)
      = Inr [TextContent example_report]"
proof -
  let ?args = "[(lit ''input_file'', VStr (lit ''/data/reads.fastq''))]"
  let ?out = "joinpath (Path (lit ''/tmp/tmpa1'')) (lit ''fastqc_output'')"
  let ?items = "[Path (lit ''/tmp/tmpa1/fastqc_output/other_fastqc'')]"
  let ?items2 = "[Path (lit ''/tmp/tmpa1/fastqc_output/other_fastqc''),
                  Path (lit ''/tmp/tmpa1/fastqc_output/reads_fastqc'')]"
  let ?dir = "Path (lit ''/tmp/tmpa1/fastqc_output/reads_fastqc'')"
  have h1: "map_of ?args (lit ''input_file'') = Some (VStr (lit ''/data/reads.fastq''))" by simp
  have h4: "120 \<le> max_file_size example_settings"
    by (simp add: example_settings_def)
  have h8: "communicate (Process (\<lambda>t. Some ([], [])) 0) (timeout example_settings)
      = Some ([], [])"
    by simp
  have h9: "returncode (Process (\<lambda>t. Some ([], [])) 0) = 0"
    by simp
  have s2: "path_exists stray_world (Path (lit ''/data/reads.fastq'')) = Inr True"
    by (simp add: fixture_defs path_defs)
  have s3: "st_size stray_world (Path (lit ''/data/reads.fastq'')) = Inr 120"
    by (simp add: fixture_defs path_defs)
  have s5: "mkdtemp stray_world (temp_dir example_settings) = Inr (lit ''/tmp/tmpa1'')"
    by (simp add: fixture_defs)
  have s6: "mkdir stray_world ?out = Inr ()"
    by (simp add: fixture_defs)
  have s7: "create_subprocess_exec stray_world
        (fastqc_single_cmd example_settings stray_world ?args ?out
           (Path (lit ''/data/reads.fastq'')))
        None = Inr (Process (\<lambda>t. Some ([], [])) 0)"
    by (simp add: fixture_defs)
  have s10: "iterdir stray_world ?out = Inr ?items"
    by (simp add: fixture_defs path_defs)
  have s11: "\<forall>item \<in> set ?items. \<exists>b. is_dir stray_world item = Inr b"
    by (auto simp: fixture_defs)
  have none: "find (\<lambda>item. is_dir stray_world item = Inr True
                  \<and> sublist (path_stem (Path (lit ''/data/reads.fastq''))) (path_name item))
          ?items = None"
    by (simp add: fixture_defs path_defs contains_iff_sublist [symmetric])
  note c1 = C9_results_directory[OF h1 s2 s3 h4 s5 s6 s7 h8 h9 s10 s11, where s = initial_state]
  from c1 none have r1: "fst (run_fastqc_single example_settings stray_world ?args initial_state)
      = Inr [TextContent (lit ''FastQC completed but results directory not found'')]"
    by blast
  have f2: "path_exists found_world (Path (lit ''/data/reads.fastq'')) = Inr True"
    by (simp add: fixture_defs)
  have f3: "st_size found_world (Path (lit ''/data/reads.fastq'')) = Inr 120"
    by (simp add: fixture_defs path_defs)
  have f5: "mkdtemp found_world (temp_dir example_settings) = Inr (lit ''/tmp/tmpa1'')"
    by (simp add: fixture_defs)
  have f6: "mkdir found_world ?out = Inr ()"
    by (simp add: fixture_defs)
  have f7: "create_subprocess_exec found_world
        (fastqc_single_cmd example_settings found_world ?args ?out
           (Path (lit ''/data/reads.fastq'')))
        None = Inr (Process (\<lambda>t. Some ([], [])) 0)"
    by (simp add: fixture_defs)
  have f10: "iterdir found_world ?out = Inr ?items2"
    by (simp add: fixture_defs path_defs)
  have f11: "\<forall>item \<in> set ?items2. \<exists>b. is_dir found_world item = Inr b"
    by (auto simp: fixture_defs)
  have some: "find (\<lambda>item. is_dir found_world item = Inr True
                  \<and> sublist (path_stem (Path (lit ''/data/reads.fastq''))) (path_name item))
          ?items2 = Some ?dir"
    by (simp add: fixture_defs path_defs contains_iff_sublist [symmetric])
  have e1: "path_exists found_world (joinpath ?dir (lit ''summary.txt'')) = Inr True"
    by (simp add: fixture_defs)
  have e2: "True \<longrightarrow> read_text found_world (joinpath ?dir (lit ''summary.txt''))
      = Inr example_summary"
    by (simp add: fixture_defs path_defs)
  have e3: "path_exists found_world (joinpath ?dir (lit ''fastqc_data.txt'')) = Inr True"
    by (simp add: fixture_defs)
  have e4: "True \<longrightarrow> read_text found_world (joinpath ?dir (lit ''fastqc_data.txt''))
      = Inr example_data"
    by (simp add: fixture_defs path_defs)
  have stem: "path_stem (Path (lit ''/data/reads.fastq'')) = lit ''reads''"
    by (simp add: path_defs)
  have paths: "path_str (joinpath ?dir (lit ''fastqc_report.html''))
        = lit ''/tmp/tmpa1/fastqc_output/reads_fastqc/fastqc_report.html''"
    "path_str (joinpath ?dir (lit ''fastqc_data.txt''))
        = lit ''/tmp/tmpa1/fastqc_output/reads_fastqc/fastqc_data.txt''"
    "path_str (joinpath ?dir (lit ''summary.txt''))
        = lit ''/tmp/tmpa1/fastqc_output/reads_fastqc/summary.txt''"
    by (simp_all add: path_defs)
  note c2 = C9_results_directory[OF h1 f2 f3 h4 f5 f6 f7 h8 h9 f10 f11,
               where has_summary = True and summary_text = example_summary
                 and has_data = True and content = example_data and s = initial_state]
  from c2 some e1 e2 e3 e4
  have "fst (run_fastqc_single example_settings found_world ?args initial_state) =
                Inr [TextContent
                  (lit ''FastQC Analysis Complete for ''
                   @ path_stem (Path (lit ''/data/reads.fastq'')) @ [10]
                   @ replicate 50 61 @ [10, 10]
                   @ (if True
                      then lit ''Module Status Summary:'' @ [10]
                           @ concat (map render_summary_line (readlines example_summary)) @ [10]
                      else [])
                   @ (if True
                      then lit ''Basic Statistics:'' @ [10]
                           @ basic_statistics False (split_chr 10 example_data)
                      else [])
                   @ [10] @ lit ''Output Files:'' @ [10]
                   @ lit ''  '' @ bullet @ lit '' HTML Report: ''
                   @ path_str (joinpath ?dir (lit ''fastqc_report.html'')) @ [10]
                   @ lit ''  '' @ bullet @ lit '' Data File: ''
                   @ path_str (joinpath ?dir (lit ''fastqc_data.txt'')) @ [10]
                   @ lit ''  '' @ bullet @ lit '' Summary: ''
                   @ path_str (joinpath ?dir (lit ''summary.txt'')) @ [10])]"
    by blast
  then have r2: "fst (run_fastqc_single example_settings found_world ?args initial_state)
      = Inr [TextContent example_report]"
    unfolding stem paths render_example_summary basic_statistics_example_data
    by (simp add: example_report_def) (simp add: lit_def)
  from none r1 some r2 show ?thesis by blast
qed

text \<open>
  C4, as the code has it. In a \<open>multiqc_report\<close> run whose MultiQC process exits with
  status 0 and whose data directory holds \<open>multiqc_general_stats.txt\<close>, the report ends
  with the heading \<open>General Statistics:\<close>, the first 1000 characters of the file and the
  marker \<open>...\<close>. The marker is appended in every case: for a file of at most 1000
  characters the excerpt is the whole content followed by \<open>...\<close>.
\<close>

theorem C4_general_stats_excerpt:
  assumes "map_of arguments (lit ''input_dir'') = Some (VStr d)"
    and "path_exists w (Path d) = Inr True"
    and "mkdtemp w (temp_dir settings) = Inr tmpdir"
    and "output_dir = joinpath (Path tmpdir) (lit ''multiqc_output'')"
    and "mkdir w output_dir = Inr ()"
    and "create_subprocess_exec w (multiqc_cmd settings arguments (Path d) output_dir) None
         = Inr process"
    and "communicate process (timeout settings) = Some (out, err)"
    and "returncode process = 0"
    and "path_exists w (joinpath output_dir (lit ''multiqc_report.html'')) = Inr has_report"
    and "has_report \<longrightarrow>
           st_size w (joinpath output_dir (lit ''multiqc_report.html'')) = Inr report_size"
    and "path_exists w (joinpath (joinpath output_dir (lit ''multiqc_data''))
           (lit ''multiqc_general_stats.txt'')) = Inr True"
    and "read_text w (joinpath (joinpath output_dir (lit ''multiqc_data''))
           (lit ''multiqc_general_stats.txt'')) = Inr stats"
  shows "fst (run_multiqc settings w arguments s) =
     Inr [TextContent
       (lit ''MultiQC report generated successfully!'' @ [10, 10]
        @ lit ''Report: '' @ path_str (joinpath output_dir (lit ''multiqc_report.html'')) @ [10]
        @ lit ''Data directory: '' @ path_str (joinpath output_dir (lit ''multiqc_data'')) @ [10, 10]
        @ (if has_report
           then lit ''Report size: '' @ format_commas report_size @ lit '' bytes'' @ [10] else [])
        @ [10] @ lit ''General Statistics:'' @ [10]
        @ take 1000 stats @ lit ''...'')]
     \<and> (length stats \<le> 1000 \<longrightarrow> take 1000 stats @ lit ''...'' = stats @ lit ''...'')"
proof -
  note r = multiqc_result_stats[OF assms(9-12)]
  have "fst (run_multiqc settings w arguments s) = Inr [TextContent
       (lit ''MultiQC report generated successfully!'' @ [10, 10]
        @ lit ''Report: '' @ path_str (joinpath output_dir (lit ''multiqc_report.html'')) @ [10]
        @ lit ''Data directory: '' @ path_str (joinpath output_dir (lit ''multiqc_data'')) @ [10, 10]
        @ (if has_report
           then lit ''Report size: '' @ format_commas report_size @ lit '' bytes'' @ [10] else [])
        @ [10] @ lit ''General Statistics:'' @ [10]
        @ take 1000 stats @ lit ''...'')]"
    using assms(5-8) r unfolding assms(4)
    by (intro run_multiqc_ok[OF assms(1-3)])
  then show ?thesis by simp
qed

text \<open>
  On the environment after a MultiQC run, with general statistics of 1500 characters:
  the excerpt is the first 1000 of them and the marker.
\<close>

theorem C4_general_stats_excerpt_witness:
  "length (replicate 1500 (65::nat)) > 1000
   \<and> read_text (multiqc_world (replicate 1500 65))
        (Path (lit ''/tmp/tmpa1/multiqc_output/multiqc_data/multiqc_general_stats.txt''))
      = Inr (replicate 1500 65)
   \<and> fst (run_multiqc example_settings (multiqc_world (replicate 1500 65))
             [(lit ''input_dir'', VStr (lit ''/data''))] initial_state)
      = Inr [TextContent (example_multiqc_head @ replicate 1000 65 @ lit ''...'')]"
proof -
  let ?stats = "replicate 1500 (65::nat)"
  let ?w = "multiqc_world ?stats"
  let ?args = "[(lit ''input_dir'', VStr (lit ''/data''))]"
  let ?out = "joinpath (Path (lit ''/tmp/tmpa1'')) (lit ''multiqc_output'')"
  have h1: "map_of ?args (lit ''input_dir'') = Some (VStr (lit ''/data''))" by simp
  have h2: "path_exists ?w (Path (lit ''/data'')) = Inr True"
    by (simp add: fixture_defs path_defs)
  have h3: "mkdtemp ?w (temp_dir example_settings) = Inr (lit ''/tmp/tmpa1'')"
    by (simp add: fixture_defs)
  have h5: "mkdir ?w ?out = Inr ()"
    by (simp add: fixture_defs)
  have h6: "create_subprocess_exec ?w
        (multiqc_cmd example_settings ?args (Path (lit ''/data'')) ?out) None
      = Inr (Process (\<lambda>t. Some ([], [])) 0)"
    by (simp add: fixture_defs)
  have h7: "communicate (Process (\<lambda>t. Some ([], [])) 0) (timeout example_settings)
      = Some ([], [])"
    by simp
  have h8: "returncode (Process (\<lambda>t. Some ([], [])) 0) = 0"
    by simp
  have h9: "path_exists ?w (joinpath ?out (lit ''multiqc_report.html'')) = Inr True"
    by (simp add: fixture_defs path_defs)
  have h10: "True \<longrightarrow> st_size ?w (joinpath ?out (lit ''multiqc_report.html'')) = Inr 12345"
    by (simp add: fixture_defs)
  have h11: "path_exists ?w (joinpath (joinpath ?out (lit ''multiqc_data''))
           (lit ''multiqc_general_stats.txt'')) = Inr True"
    by (simp add: fixture_defs path_defs)
  have h12: "read_text ?w (joinpath (joinpath ?out (lit ''multiqc_data''))
           (lit ''multiqc_general_stats.txt'')) = Inr ?stats"
    by (simp add: fixture_defs)
  have r: "read_text ?w
        (Path (lit ''/tmp/tmpa1/multiqc_output/multiqc_data/multiqc_general_stats.txt''))
      = Inr ?stats"
    by (simp add: fixture_defs)
  have c: "fst (run_multiqc example_settings ?w ?args initial_state)
      = Inr [TextContent (example_multiqc_head @ replicate 1000 65 @ lit ''...'')]"
    using C4_general_stats_excerpt[OF h1 h2 h3 refl h5 h6 h7 h8 h9 h10 h11 h12, of initial_state]
    by (simp add: format_commas_12345 example_multiqc_head_def path_defs)
  from r c show ?thesis by simp
qed

text \<open>
  Against C4 as it is stated: the general statistics \<open>Sample: 42 reads\<close> are shorter than
  1000 characters, and the excerpt of the report is that content followed by \<open>...\<close>, which
  is not the content alone.
\<close>

theorem C4_short_file_counterexample:
  "length (lit ''Sample: 42 reads'') < 1000
   \<and> fst (run_multiqc example_settings (multiqc_world (lit ''Sample: 42 reads''))
             [(lit ''input_dir'', VStr (lit ''/data''))] initial_state)
      = Inr [TextContent (example_multiqc_head @ lit ''Sample: 42 reads'' @ lit ''...'')]
   \<and> example_multiqc_head @ lit ''Sample: 42 reads'' @ lit ''...''
      \<noteq> example_multiqc_head @ lit ''Sample: 42 reads''"
  using multiqc_world_run[of "lit ''Sample: 42 reads''"] by (simp add: lit_def)

text \<open>
  C6. When the output directory and \<open>summary.txt\<close> of every input file are found, the
  batch summary is the heading, one line for each input file in order, and the totals.
  The line of a file carries the numbers of lines of its \<open>summary.txt\<close> that begin with
  \<open>PASS\<close>, \<open>WARN\<close> and \<open>FAIL\<close>, after the glyph for fail when the fail count is
  positive, for warn when the fail count is zero and the warn count is positive, and for
  pass otherwise; the totals are the sums of these numbers over the files. The three lines
  of the example give one pass, one warn and one fail, both as the specification counts
  them and as the code does.
\<close>

theorem C6_batch_counts_and_glyph:
  assumes "iterdir w output_dir = Inr items"
    and "\<forall>f \<in> set files.
           \<exists>fastqc_dir.
             find_fastqc_dir w items
               (replace (lit ''.fq'') [] (replace (lit ''.fastq'') [] (path_stem f)))
             = Inr (Some fastqc_dir)
           \<and> path_exists w (joinpath fastqc_dir (lit ''summary.txt'')) = Inr True
           \<and> read_text w (joinpath fastqc_dir (lit ''summary.txt'')) = Inr (summary_of f)"
  shows "summarize_batch_results w output_dir files =
     lit ''FastQC Batch Analysis Complete'' @ [10] @ replicate 40 61 @ [10, 10]
     @ lit ''Processed '' @ str_int (int (length files)) @ lit '' files:'' @ [10, 10]
     @ concat (map (\<lambda>f. expected_file_line f (summary_of f)) files)
     @ [10] @ lit ''Overall Summary:'' @ [10]
     @ lit ''  '' @ bullet @ lit '' Total PASS: ''
     @ str_int (sum_list (map (\<lambda>f. lines_beginning (lit ''PASS'') (summary_of f)) files)) @ [10]
     @ lit ''  '' @ bullet @ lit '' Total WARN: ''
     @ str_int (sum_list (map (\<lambda>f. lines_beginning (lit ''WARN'') (summary_of f)) files)) @ [10]
     @ lit ''  '' @ bullet @ lit '' Total FAIL: ''
     @ str_int (sum_list (map (\<lambda>f. lines_beginning (lit ''FAIL'') (summary_of f)) files))
     @ [10, 10]
     @ lit ''Output directory: '' @ path_str output_dir @ [10]
     @ [10] @ lit ''Tip: Run multiqc_report on this directory to generate a combined report!''
     @ [10]
     \<and> lines_beginning (lit ''PASS'') example_summary = 1
     \<and> lines_beginning (lit ''WARN'') example_summary = 1
     \<and> lines_beginning (lit ''FAIL'') example_summary = 1
     \<and> count_status (lit ''PASS'') (readlines example_summary) = 1
     \<and> count_status (lit ''WARN'') (readlines example_summary) = 1
     \<and> count_status (lit ''FAIL'') (readlines example_summary) = 1"
proof -
  have counts: "count_status (lit ''PASS'') (readlines example_summary) = 1"
    "count_status (lit ''WARN'') (readlines example_summary) = 1"
    "count_status (lit ''FAIL'') (readlines example_summary) = 1"
    unfolding readlines_example_summary by (simp_all add: count_status_def lit_def)
  then have spec: "lines_beginning (lit ''PASS'') example_summary = 1"
    "lines_beginning (lit ''WARN'') example_summary = 1"
    "lines_beginning (lit ''FAIL'') example_summary = 1"
    by (simp_all add: lines_beginning_def count_status_filter [symmetric])
  show ?thesis
    using counts spec
    by (simp add: summarize_batch_results_def summarize_files_found[OF assms])
qed

text \<open>
  On the environment whose output directory holds \<open>sample_fastqc\<close> with the example
  summary, for the inputs \<open>/data/sample.fastq\<close> and \<open>/data/sample.fq\<close>.
\<close>

theorem C6_batch_counts_and_glyph_witness:
  "iterdir batch_world (Path (lit ''/tmp/tmpa1/fastqc_batch_output''))
      = Inr [Path (lit ''/tmp/tmpa1/fastqc_batch_output/sample_fastqc'')]
   \<and> read_text batch_world
        (Path (lit ''/tmp/tmpa1/fastqc_batch_output/sample_fastqc/summary.txt''))
      = Inr example_summary
   \<and> summarize_batch_results batch_world (Path (lit ''/tmp/tmpa1/fastqc_batch_output''))
        [Path (lit ''/data/sample.fastq''), Path (lit ''/data/sample.fq'')]
      = example_batch_summary"
proof -
  let ?out = "Path (lit ''/tmp/tmpa1/fastqc_batch_output'')"
  let ?dir = "Path (lit ''/tmp/tmpa1/fastqc_batch_output/sample_fastqc'')"
  let ?sum = "Path (lit ''/tmp/tmpa1/fastqc_batch_output/sample_fastqc/summary.txt'')"
  let ?files = "[Path (lit ''/data/sample.fastq''), Path (lit ''/data/sample.fq'')]"
  have h1: "iterdir batch_world ?out = Inr [?dir]"
    by (simp add: fixture_defs path_defs)
  have base1: "replace (lit ''.fq'') []
        (replace (lit ''.fastq'') [] (path_stem (Path (lit ''/data/sample.fastq''))))
      = lit ''sample''"
    by (simp add: path_defs replace.simps)
  have base2: "replace (lit ''.fq'') []
        (replace (lit ''.fastq'') [] (path_stem (Path (lit ''/data/sample.fq''))))
      = lit ''sample''"
    by (simp add: path_defs replace.simps)
  have found: "find_fastqc_dir batch_world [?dir] (lit ''sample'') = Inr (Some ?dir)"
    by (simp add: fixture_defs path_defs bindE_def)
  have s: "joinpath ?dir (lit ''summary.txt'') = ?sum"
    by (simp add: path_defs)
  have ex: "path_exists batch_world ?sum = Inr True"
    by (simp add: fixture_defs)
  have rd: "read_text batch_world ?sum = Inr example_summary"
    by (simp add: fixture_defs)
  have p1: "find_fastqc_dir batch_world [?dir]
               (replace (lit ''.fq'') []
                  (replace (lit ''.fastq'') [] (path_stem (Path (lit ''/data/sample.fastq'')))))
             = Inr (Some ?dir)
           \<and> path_exists batch_world (joinpath ?dir (lit ''summary.txt'')) = Inr True
           \<and> read_text batch_world (joinpath ?dir (lit ''summary.txt'')) = Inr example_summary"
    unfolding base1 s using found ex rd by blast
  have p2: "find_fastqc_dir batch_world [?dir]
               (replace (lit ''.fq'') []
                  (replace (lit ''.fastq'') [] (path_stem (Path (lit ''/data/sample.fq'')))))
             = Inr (Some ?dir)
           \<and> path_exists batch_world (joinpath ?dir (lit ''summary.txt'')) = Inr True
           \<and> read_text batch_world (joinpath ?dir (lit ''summary.txt'')) = Inr example_summary"
    unfolding base2 s using found ex rd by blast
  have h2: "\<forall>f \<in> set ?files.
           \<exists>fastqc_dir.
             find_fastqc_dir batch_world [?dir]
               (replace (lit ''.fq'') [] (replace (lit ''.fastq'') [] (path_stem f)))
             = Inr (Some fastqc_dir)
           \<and> path_exists batch_world (joinpath fastqc_dir (lit ''summary.txt'')) = Inr True
           \<and> read_text batch_world (joinpath fastqc_dir (lit ''summary.txt''))
               = Inr example_summary"
    using p1 p2 by (simp del: find_fastqc_dir.simps)
  have names: "path_name (Path (lit ''/data/sample.fastq'')) = lit ''sample.fastq''"
    "path_name (Path (lit ''/data/sample.fq'')) = lit ''sample.fq''"
    "path_str ?out = lit ''/tmp/tmpa1/fastqc_batch_output''"
    by (simp_all add: path_defs)
  have two: "str_int 2 = lit ''2''"
    by (simp add: str_int_def str_nat.simps lit_def)
  have c: "summarize_batch_results batch_world ?out ?files = example_batch_summary"
    using C6_batch_counts_and_glyph[OF h1 h2]
    by (simp add: expected_file_line_def expected_glyph_def lines_beginning_example names
          str_int_1 two example_batch_summary_def)
       (simp add: lit_def)
  from h1 rd c show ?thesis by blast
qed

section \<open>The claims about the enhanced server\<close>

text \<open>
  C2, where the code departs from it. The enhanced \<open>multiqc\<close> operation stages nothing: in a
  run with a directly executed tool that exits with status 0, the trace after the tool
  detection consists of the log line, the spawn of the tool and the removal of the
  temporary directory, with no \<open>WriteBytes\<close> event, and the last argument given to the
  tool is the path of the original input directory.
\<close>

theorem C2_multiqc_runs_on_original_directory:
  assumes "map_of arguments (lit ''input_dir'') = Some (VStr d)"
    and "path_exists w (Path d) = Inr True"
    and "mkdtemp w (temp_dir settings) = Inr tmpdir"
    and "get_multiqc_info settings w det (s\<lparr>trace := trace s @ [TempDirCreated tmpdir]\<rparr>)
         = (Inr info, s')"
    and "mode info \<notin> {UNAVAILABLE, MODULE, LMOD}"
    and "get_execution_command det info (multiqc_tool_args arguments tmpdir (Path d)) = Inr cmd"
    and "py_join w (lit '' '') cmd = Inr joined"
    and "create_subprocess_exec w cmd (Some tmpdir) = Inr process"
    and "communicate process (timeout settings) = Some (out, err)"
    and "returncode process = 0"
    and "glob w (Path tmpdir) (VStr (lit ''*'')) = Inr files"
    and "select_output_files w None files = Inr output_files"
    and "list_output_files w output_files = Inr listing"
  shows "snd (enhanced_run_multiqc settings w det arguments s) =
      s'\<lparr>trace := trace s' @
         [LogInfo (lit ''Executing '' @ lit ''multiqc'' @ lit '' via '' @ mode_value (mode info)
                   @ lit '': '' @ joined),
          SpawnExec cmd (Some tmpdir),
          TempDirRemoved tmpdir]\<rparr>
     \<and> last (multiqc_tool_args arguments tmpdir (Path d)) = VStr (path_str (Path d))"
  using assms
  by (simp add: enhanced_run_multiqc_def execute_tool_command_def io_defs subscript_def
        Path_of_def Let_def multiqc_tool_args_def multiqc_not_fastqc)

text \<open>
  On the example environment with a natively installed MultiQC: the tool is started on
  \<open>/data\<close> itself and nothing is written to \<open>/tmp/tmpa1\<close> before.
\<close>

theorem C2_multiqc_runs_on_original_directory_witness:
  "path_exists example_world (Path (lit ''/data'')) = Inr True
   \<and> snd (enhanced_run_multiqc example_enhanced_settings example_world example_detector
          [(lit ''input_dir'', VStr (lit ''/data''))] initial_enhanced_state)
      = \<lparr> trace =
            [TempDirCreated (lit ''/tmp/tmpa1''),
             LogInfo (lit ''Executing multiqc via native: /usr/bin/multiqc -o /tmp/tmpa1 /data''),
             SpawnExec [VStr (lit ''/usr/bin/multiqc''), VStr (lit ''-o''),
                        VStr (lit ''/tmp/tmpa1''), VStr (lit ''/data'')]
                       (Some (lit ''/tmp/tmpa1'')),
             TempDirRemoved (lit ''/tmp/tmpa1'')],
          fastqc_info = None,
          multiqc_info = Some \<lparr> mode = NATIVE, tool_path = Some (lit ''/usr/bin/multiqc''),
                                 tool_version = None, tool_module = None, tool_image = None \<rparr> \<rparr>"
proof -
  let ?args = "[(lit ''input_dir'', VStr (lit ''/data''))]"
  let ?info = "\<lparr> mode = NATIVE, tool_path = Some (lit ''/usr/bin/'' @ lit ''multiqc''),
             tool_version = None, tool_module = None, tool_image = None \<rparr>"
  let ?cmd = "[VStr (lit ''/usr/bin/multiqc''), VStr (lit ''-o''), VStr (lit ''/tmp/tmpa1''),
               VStr (lit ''/data'')]"
  let ?s1 = "initial_enhanced_state
       \<lparr>trace := trace initial_enhanced_state @ [TempDirCreated (lit ''/tmp/tmpa1'')]\<rparr>"
  have h1: "map_of ?args (lit ''input_dir'') = Some (VStr (lit ''/data''))" by simp
  have h2: "path_exists example_world (Path (lit ''/data'')) = Inr True"
    by (simp add: fixture_defs path_defs)
  have h3: "mkdtemp example_world (temp_dir example_enhanced_settings) = Inr (lit ''/tmp/tmpa1'')"
    by (simp add: fixture_defs)
  have h4: "get_multiqc_info example_enhanced_settings example_world example_detector ?s1
      = (Inr ?info, ?s1\<lparr>multiqc_info := Some ?info\<rparr>)"
    by (simp add: get_multiqc_info_def example_detect initial_enhanced_state_def)
  have h5: "mode ?info \<notin> {UNAVAILABLE, MODULE, LMOD}" by simp
  have h6: "get_execution_command example_detector ?info
        (multiqc_tool_args ?args (lit ''/tmp/tmpa1'') (Path (lit ''/data''))) = Inr ?cmd"
    by (simp add: example_detector_def multiqc_tool_args_def optional_flag_def dict_get_def
          path_defs)
  have h7: "py_join example_world (lit '' '') ?cmd
      = Inr (lit ''/usr/bin/multiqc -o /tmp/tmpa1 /data'')"
    by (simp add: py_join_def bindE_def lit_def)
  have h8: "create_subprocess_exec example_world ?cmd (Some (lit ''/tmp/tmpa1''))
      = Inr (Process (\<lambda>t. Some ([], [])) 0)"
    by (simp add: fixture_defs)
  have h9: "communicate (Process (\<lambda>t. Some ([], [])) 0) (timeout example_enhanced_settings)
      = Some ([], [])"
    by simp
  have h10: "returncode (Process (\<lambda>t. Some ([], [])) 0) = 0"
    by simp
  have h11: "glob example_world (Path (lit ''/tmp/tmpa1'')) (VStr (lit ''*'')) = Inr []"
    by (simp add: fixture_defs)
  have h12: "select_output_files example_world None [] = Inr []" by simp
  have h13: "list_output_files example_world [] = Inr []" by simp
  note c = C2_multiqc_runs_on_original_directory
             [OF h1 h2 h3 h4 h5 h6 h7 h8 h9 h10 h11 h12 h13]
  have "snd (enhanced_run_multiqc example_enhanced_settings example_world example_detector
          ?args initial_enhanced_state)
      = \<lparr> trace =
            [TempDirCreated (lit ''/tmp/tmpa1''),
             LogInfo (lit ''Executing multiqc via native: /usr/bin/multiqc -o /tmp/tmpa1 /data''),
             SpawnExec ?cmd (Some (lit ''/tmp/tmpa1'')),
             TempDirRemoved (lit ''/tmp/tmpa1'')],
          fastqc_info = None,
          multiqc_info = Some \<lparr> mode = NATIVE, tool_path = Some (lit ''/usr/bin/multiqc''),
                                 tool_version = None, tool_module = None, tool_image = None \<rparr> \<rparr>"
    using c by (simp add: initial_enhanced_state_def lit_def)
  with h2 show ?thesis by blast
qed

text \<open>
  C3, where the code departs from it. In an enhanced \<open>fastqc\<close> run with a directly executed
  tool that does not finish within the configured timeout, the operation returns the error
  content \<open>Error: \<close> with nothing after the colon, so the timeout is not named, and the trace
  after the tool detection consists of the log line, the spawn, the removal of the
  temporary directory and the error log: there is no \<open>Kill\<close> event.
\<close>

theorem C3_enhanced_timeout_unhandled:
  assumes "map_of arguments (lit ''input_file'') = Some (VStr f)"
    and "path_exists w (Path f) = Inr True"
    and "st_size w (Path f) = Inr n"
    and "n \<le> max_file_size settings"
    and "mkdtemp w (temp_dir settings) = Inr tmpdir"
    and "temp_input = joinpath (Path tmpdir) (path_name (Path f))"
    and "read_bytes w (Path f) = Inr data"
    and "write_bytes w temp_input data = Inr ()"
    and "get_fastqc_info settings w det
           (s\<lparr>trace := trace s @ [TempDirCreated tmpdir, WriteBytes temp_input data]\<rparr>)
         = (Inr info, s')"
    and "mode info \<notin> {UNAVAILABLE, MODULE, LMOD}"
    and "get_execution_command det info (fastqc_tool_args w arguments tmpdir temp_input)
         = Inr cmd"
    and "py_join w (lit '' '') cmd = Inr joined"
    and "create_subprocess_exec w cmd (Some tmpdir) = Inr process"
    and "communicate process (timeout settings) = None"
  shows "enhanced_run_fastqc settings w det arguments s =
     (Inr [ErrorContent (lit ''Error: '')],
      s'\<lparr>trace := trace s' @
         [LogInfo (lit ''Executing '' @ lit ''fastqc'' @ lit '' via '' @ mode_value (mode info)
                   @ lit '': '' @ joined),
          SpawnExec cmd (Some tmpdir),
          TempDirRemoved tmpdir,
          LogError (lit ''Error running FastQC: '')]\<rparr>)"
  using assms
  by (simp add: enhanced_run_fastqc_def execute_tool_command_def io_defs subscript_def
        Path_of_def Let_def)

text \<open>
  On the environment whose tools never finish, with a natively installed FastQC and the
  timeout of 1800 seconds.
\<close>

theorem C3_enhanced_timeout_unhandled_witness:
  "communicate (Process (\<lambda>t. None) 0) (timeout example_enhanced_settings) = None
   \<and> enhanced_run_fastqc example_enhanced_settings hanging_world example_detector
        [(lit ''input_file'', VStr (lit ''/data/reads.fastq''))] initial_enhanced_state
      = (Inr [ErrorContent (lit ''Error: '')],
         \<lparr> trace =
            [TempDirCreated (lit ''/tmp/tmpa1''),
             WriteBytes (Path (lit ''/tmp/tmpa1/reads.fastq'')) [64, 114, 49, 10],
             LogInfo (lit ''Executing fastqc via native: /usr/bin/fastqc -o /tmp/tmpa1 -t 1 /tmp/tmpa1/reads.fastq''),
             SpawnExec [VStr (lit ''/usr/bin/fastqc''), VStr (lit ''-o''),
                        VStr (lit ''/tmp/tmpa1''), VStr (lit ''-t''), VStr (lit ''1''),
                        VStr (lit ''/tmp/tmpa1/reads.fastq'')]
                       (Some (lit ''/tmp/tmpa1'')),
             TempDirRemoved (lit ''/tmp/tmpa1''),
             LogError (lit ''Error running FastQC: '')],
           fastqc_info = Some \<lparr> mode = NATIVE, tool_path = Some (lit ''/usr/bin/fastqc''),
                                 tool_version = None, tool_module = None, tool_image = None \<rparr>,
           multiqc_info = None \<rparr>)"
proof -
  let ?args = "[(lit ''input_file'', VStr (lit ''/data/reads.fastq''))]"
  let ?info = "\<lparr> mode = NATIVE, tool_path = Some (lit ''/usr/bin/'' @ lit ''fastqc''),
             tool_version = None, tool_module = None, tool_image = None \<rparr>"
  let ?tmp = "Path (lit ''/tmp/tmpa1/reads.fastq'')"
  let ?cmd = "[VStr (lit ''/usr/bin/fastqc''), VStr (lit ''-o''), VStr (lit ''/tmp/tmpa1''),
               VStr (lit ''-t''), VStr (lit ''1''), VStr (lit ''/tmp/tmpa1/reads.fastq'')]"
  let ?s1 = "initial_enhanced_state\<lparr>trace := trace initial_enhanced_state @
       [TempDirCreated (lit ''/tmp/tmpa1''), WriteBytes ?tmp [64, 114, 49, 10]]\<rparr>"
  have h1: "map_of ?args (lit ''input_file'') = Some (VStr (lit ''/data/reads.fastq''))" by simp
  have h2: "path_exists hanging_world (Path (lit ''/data/reads.fastq'')) = Inr True"
    by (simp add: fixture_defs path_defs)
  have h3: "st_size hanging_world (Path (lit ''/data/reads.fastq'')) = Inr 120"
    by (simp add: fixture_defs path_defs)
  have h4: "120 \<le> max_file_size example_enhanced_settings"
    by (simp add: fixture_defs)
  have h5: "mkdtemp hanging_world (temp_dir example_enhanced_settings) = Inr (lit ''/tmp/tmpa1'')"
    by (simp add: fixture_defs)
  have h6: "?tmp = joinpath (Path (lit ''/tmp/tmpa1'')) (path_name (Path (lit ''/data/reads.fastq'')))"
    by (simp add: path_defs)
  have h7: "read_bytes hanging_world (Path (lit ''/data/reads.fastq'')) = Inr [64, 114, 49, 10]"
    by (simp add: fixture_defs path_defs)
  have h8: "write_bytes hanging_world ?tmp [64, 114, 49, 10] = Inr ()"
    by (simp add: fixture_defs)
  have h9: "get_fastqc_info example_enhanced_settings hanging_world example_detector ?s1
      = (Inr ?info, ?s1\<lparr>fastqc_info := Some ?info\<rparr>)"
    by (simp add: get_fastqc_info_def hanging_detect initial_enhanced_state_def)
  have h10: "mode ?info \<notin> {UNAVAILABLE, MODULE, LMOD}" by simp
  have h11: "get_execution_command example_detector ?info
        (fastqc_tool_args hanging_world ?args (lit ''/tmp/tmpa1'') ?tmp) = Inr ?cmd"
    by (simp add: example_detector_def fastqc_tool_args_def dict_get_def py_str_def
          str_int_def str_nat.simps path_defs)
  have h12: "py_join hanging_world (lit '' '') ?cmd
      = Inr (lit ''/usr/bin/fastqc -o /tmp/tmpa1 -t 1 /tmp/tmpa1/reads.fastq'')"
    by (simp add: py_join_def bindE_def lit_def)
  have h13: "create_subprocess_exec hanging_world ?cmd (Some (lit ''/tmp/tmpa1''))
      = Inr (Process (\<lambda>t. None) 0)"
    by (simp add: fixture_defs)
  have h14: "communicate (Process (\<lambda>t. None) 0) (timeout example_enhanced_settings) = None"
    by simp
  note c = C3_enhanced_timeout_unhandled
             [OF h1 h2 h3 h4 h5 h6 h7 h8 h9 h10 h11 h12 h13 h14]
  have "enhanced_run_fastqc example_enhanced_settings hanging_world example_detector
        ?args initial_enhanced_state
      = (Inr [ErrorContent (lit ''Error: '')],
         \<lparr> trace =
            [TempDirCreated (lit ''/tmp/tmpa1''),
             WriteBytes ?tmp [64, 114, 49, 10],
             LogInfo (lit ''Executing fastqc via native: /usr/bin/fastqc -o /tmp/tmpa1 -t 1 /tmp/tmpa1/reads.fastq''),
             SpawnExec ?cmd (Some (lit ''/tmp/tmpa1'')),
             TempDirRemoved (lit ''/tmp/tmpa1''),
             LogError (lit ''Error running FastQC: '')],
           fastqc_info = Some \<lparr> mode = NATIVE, tool_path = Some (lit ''/usr/bin/fastqc''),
                                 tool_version = None, tool_module = None, tool_image = None \<rparr>,
           multiqc_info = None \<rparr>)"
    using c by (simp add: initial_enhanced_state_def lit_def)
  with h14 show ?thesis by blast
qed

section \<open>The claims about the queue-backed server\<close>

text \<open>
  C7. For each of the three operations with an asynchronous variant, the call of
  \<open>\<dots>_async\<close> submits exactly one job: its type is the name of the operation, its
  parameters are the arguments without the keys \<open>priority\<close>, \<open>tags\<close> and
  \<open>notification_email\<close>, in their order and with their values, its priority is the argument
  \<open>priority\<close> or 5 without it, and its tags are the argument \<open>tags\<close> or the empty list
  without it.
\<close>

theorem C7_async_submission:
  assumes "base \<in> {lit ''fastqc_single'', lit ''fastqc_batch'', lit ''multiqc_report''}"
  shows "snd (queue_call_tool w q parent (base @ lit ''_async'') arguments s) =
     s\<lparr>trace := trace s @
        [SubmitJob base
           (filter (\<lambda>kv. fst kv \<notin> {lit ''priority'', lit ''tags'', lit ''notification_email''})
              arguments)
           (dict_get arguments (lit ''priority'') (VInt 5))
           (dict_get arguments (lit ''tags'') (VList []))]\<rparr>"
proof -
  have cfg: "map_of async_tool_configs base = Some base"
    using assms by (auto simp: async_tool_configs_def lit_def)
  have len: "take (length (base @ lit ''_async'') - 6) (base @ lit ''_async'') = base"
    by (simp add: lit_def)
  have tags: "dict_get (AList.delete (lit ''priority'') arguments) (lit ''tags'') (VList [])
      = dict_get arguments (lit ''tags'') (VList [])"
    by (rule dict_get_delete) (simp add: lit_def)
  have params: "AList.delete (lit ''notification_email'')
        (AList.delete (lit ''tags'') (AList.delete (lit ''priority'') arguments))
      = filter (\<lambda>kv. fst kv \<notin> {lit ''priority'', lit ''tags'', lit ''notification_email''})
          arguments"
    by (simp add: delete_filter conj_commute conj_left_commute)
  show ?thesis
    unfolding queue_call_tool_def Let_def len
    by (simp add: endswith_append cfg handle_async_tool_def dict_pop_def tags params
          bind_def emit_def ask_def ret_def try_except_def split: sum.splits prod.splits)
qed

text \<open>
  The example of the specification: \<open>fastqc_single_async\<close> with \<open>priority\<close> 9 and the tag
  \<open>urgent\<close> submits \<open>input_file\<close> and \<open>threads\<close> only, with priority 9.
\<close>

theorem C7_async_submission_witness:
  "lit ''fastqc_single'' \<in> {lit ''fastqc_single'', lit ''fastqc_batch'', lit ''multiqc_report''}
   \<and> snd (queue_call_tool example_world example_queue example_parent
            (lit ''fastqc_single_async'')
            [(lit ''input_file'', VStr (lit ''/data/reads.fastq'')),
             (lit ''priority'', VInt 9),
             (lit ''threads'', VInt 2),
             (lit ''tags'', VList [VStr (lit ''urgent'')])] initial_state)
      = \<lparr>trace =
           [SubmitJob (lit ''fastqc_single'')
              [(lit ''input_file'', VStr (lit ''/data/reads.fastq'')), (lit ''threads'', VInt 2)]
              (VInt 9)
              (VList [VStr (lit ''urgent'')])]\<rparr>"
proof -
  have h: "lit ''fastqc_single''
      \<in> {lit ''fastqc_single'', lit ''fastqc_batch'', lit ''multiqc_report''}"
    by simp
  have n: "lit ''fastqc_single'' @ lit ''_async'' = lit ''fastqc_single_async''"
    by (simp add: lit_def)
  have c: "snd (queue_call_tool example_world example_queue example_parent
            (lit ''fastqc_single_async'')
            [(lit ''input_file'', VStr (lit ''/data/reads.fastq'')),
             (lit ''priority'', VInt 9),
             (lit ''threads'', VInt 2),
             (lit ''tags'', VList [VStr (lit ''urgent'')])] initial_state)
      = \<lparr>trace =
           [SubmitJob (lit ''fastqc_single'')
              [(lit ''input_file'', VStr (lit ''/data/reads.fastq'')), (lit ''threads'', VInt 2)]
              (VInt 9)
              (VList [VStr (lit ''urgent'')])]\<rparr>"
    using C7_async_submission[OF h, of example_world example_queue example_parent _ initial_state]
    unfolding n by (simp add: dict_get_def initial_state_def lit_def)
  from h c show ?thesis by blast
qed

text \<open>
  C10. A call whose name ends in \<open>_async\<close> and whose name without these six characters is
  none of \<open>fastqc_single\<close>, \<open>fastqc_batch\<close> and \<open>multiqc_report\<close> returns \<open>None\<close>: no
  content, no error content and no call of the inherited dispatch, and the state is as it
  was.
\<close>

theorem C10_unknown_async_falls_through:
  assumes "endswith name (lit ''_async'')"
    and "take (length name - 6) name
           \<notin> {lit ''fastqc_single'', lit ''fastqc_batch'', lit ''multiqc_report''}"
  shows "queue_call_tool w q parent name arguments s = (Inr None, s)"
  using assms by (simp add: queue_call_tool_def async_tool_configs_def Let_def ret_def)

text \<open>
  For the name \<open>fastqc_async\<close>, with the basic server's dispatch as the inherited one.
\<close>

theorem C10_unknown_async_falls_through_witness:
  "endswith (lit ''fastqc_async'') (lit ''_async'')
   \<and> take (length (lit ''fastqc_async'') - 6) (lit ''fastqc_async'') = lit ''fastqc''
   \<and> queue_call_tool example_world example_queue example_parent (lit ''fastqc_async'')
        [(lit ''input_file'', VStr (lit ''/data/reads.fastq''))] initial_state
      = (Inr None, initial_state)"
proof -
  have h1: "endswith (lit ''fastqc_async'') (lit ''_async'')"
    by (simp add: endswith_def lit_def)
  have t: "take (length (lit ''fastqc_async'') - 6) (lit ''fastqc_async'') = lit ''fastqc''"
    by (simp add: lit_def)
  have h2: "take (length (lit ''fastqc_async'') - 6) (lit ''fastqc_async'')
      \<notin> {lit ''fastqc_single'', lit ''fastqc_batch'', lit ''multiqc_report''}"
    unfolding t by (simp add: lit_def)
  from C10_unknown_async_falls_through[OF h1 h2] h1 t show ?thesis by blast
qed

end
